theory Spec2Isabelle
  imports Main "HOL-Library.Sublist"
begin

section \<open>JavaScript values used by the two pages\<close>

subsection \<open>Strings\<close>

text \<open>
  A JavaScript string is the list of its UTF-16 code units, each a number below 65536.
  Identifiers, user ids and categories, which the code only compares, are kept as
  \<open>string\<close>; the texts the code trims, lower-cases or searches (names, descriptions, the
  search term) are \<open>jsstring\<close>. \<open>js\<close> gives the code units of an ASCII literal.
\<close>

type_synonym jsstring = "nat list"

definition js :: "string \<Rightarrow> jsstring" where
  "js s = map of_char s"

text \<open>
  \<open>String.prototype.trim\<close> removes white space and line terminators at both ends: TAB, LF,
  VT, FF, CR, SPACE, U+00A0, U+1680, U+2000 to U+200A, U+2028, U+2029, U+202F, U+205F,
  U+3000 and U+FEFF.
\<close>

definition isWhiteSpace :: "nat \<Rightarrow> bool" where
  "isWhiteSpace u =
     ((9 \<le> u \<and> u \<le> 13) \<or> u = 32 \<or> u = 160 \<or> u = 5760 \<or> (8192 \<le> u \<and> u \<le> 8202)
      \<or> u = 8232 \<or> u = 8233 \<or> u = 8239 \<or> u = 8287 \<or> u = 12288 \<or> u = 65279)"

definition trim :: "jsstring \<Rightarrow> jsstring" where
  "trim s = rev (dropWhile isWhiteSpace (rev (dropWhile isWhiteSpace s)))"

text \<open>
  \<open>String.prototype.toLowerCase\<close> is a function of the language, defined by the Unicode
  case mappings; it can change the length of a string (U+0130 becomes two code units).
  The handlers take it as the parameter \<open>toLowerCase\<close>, so what is proved of them holds for
  the function of any engine. The examples use \<open>toLowerCase_sample\<close>, which is that
  function on strings of ASCII code units and U+0130: \<open>A\<close> to \<open>Z\<close> become \<open>a\<close> to \<open>z\<close>, U+0130
  becomes U+0069 U+0307, the other ASCII units stay.
\<close>

definition toLowerCase_sample_unit :: "nat \<Rightarrow> jsstring" where
  "toLowerCase_sample_unit u =
     (if 65 \<le> u \<and> u \<le> 90 then [u + 32] else if u = 304 then [105, 775] else [u])"

definition toLowerCase_sample :: "jsstring \<Rightarrow> jsstring" where
  "toLowerCase_sample s = concat (map toLowerCase_sample_unit s)"

fun startsWith :: "'a list \<Rightarrow> 'a list \<Rightarrow> bool" where
  "startsWith s [] = True"
| "startsWith [] (c # t) = False"
| "startsWith (a # s) (b # t) = (a = b \<and> startsWith s t)"

text \<open>
  \<open>s.includes(t)\<close> on strings: \<open>t\<close> occurs in \<open>s\<close> at some position
  (\<open>includes\<close> is a keyword of Isabelle, hence the suffix).
\<close>

fun includes_str :: "'a list \<Rightarrow> 'a list \<Rightarrow> bool" where
  "includes_str [] t = (t = [])"
| "includes_str (c # s) t = (startsWith (c # s) t \<or> includes_str s t)"

subsection \<open>Points in time\<close>

text \<open>
  The \<open>datetime\<close> and \<open>created\<close> fields hold either a JavaScript \<open>Date\<close> (milliseconds since
  the epoch; what \<open>handleSubmit\<close> writes into the local mirror) or the store's \<open>Timestamp\<close>
  (seconds and nanoseconds; what a read from the store delivers). Only the latter has a
  \<open>toDate\<close> method. That method belongs to the store's client library, which computes the
  milliseconds in floating point; the form binder takes it as the parameter \<open>toDate\<close>,
  from seconds and nanoseconds to the milliseconds of the resulting \<open>Date\<close>.
\<close>

datatype js_datetime = DateObj int | Timestamp int nat

text \<open>What the store keeps for a \<open>Date\<close> it is given.\<close>

definition fromDate :: "int \<Rightarrow> js_datetime" where
  "fromDate ms = Timestamp (ms div 1000) (nat (ms mod 1000) * 1000000)"

text \<open>The point in time a value denotes, in nanoseconds; the store orders by it.\<close>

fun time_key :: "js_datetime \<Rightarrow> int" where
  "time_key (DateObj ms) = ms * 1000000"
| "time_key (Timestamp seconds nanoseconds) = seconds * 1000000000 + int nanoseconds"

subsection \<open>Events\<close>

text \<open>
  An event as both pages hold it: \<open>{ id: doc.id, ...doc.data() }\<close>. Every field but the id
  may be missing on a document, and the code guards the reads (\<open>event.name?.\<close>,
  \<open>event.favorites || []\<close>, \<open>if (ev.datetime)\<close>), so they are options. The field \<open>id\<close> is
  written \<open>id'\<close>.
\<close>

record event =
  id' :: string
  name :: "jsstring option"
  description :: "jsstring option"
  datetime :: "js_datetime option"
  isPrivate :: "bool option"
  category :: "string option"
  userId :: "string option"
  created :: "js_datetime option"
  favorites :: "string list option"

text \<open>The object \<open>eventData\<close> that \<open>handleSubmit\<close> builds from the form.\<close>

datatype eventData = EventData
  (d_name: jsstring) (d_description: jsstring) (d_datetime: int) (d_isPrivate: bool)
  (d_category: string) (d_userId: string) (d_created: int)

text \<open>\<open>{ ...ev, ...eventData }\<close>: every field of \<open>eventData\<close> replaces the event's.\<close>

definition spread :: "event \<Rightarrow> eventData \<Rightarrow> event" where
  "spread ev d = ev\<lparr>
     name := Some (d_name d), description := Some (d_description d),
     datetime := Some (DateObj (d_datetime d)), isPrivate := Some (d_isPrivate d),
     category := Some (d_category d), userId := Some (d_userId d),
     created := Some (DateObj (d_created d))\<rparr>"

text \<open>\<open>{ id: docRef.id, ...eventData }\<close>: no \<open>favorites\<close> field.\<close>

definition newEvent :: "string \<Rightarrow> eventData \<Rightarrow> event" where
  "newEvent i d = \<lparr>
     id' = i, name = Some (d_name d), description = Some (d_description d),
     datetime = Some (DateObj (d_datetime d)), isPrivate = Some (d_isPrivate d),
     category = Some (d_category d), userId = Some (d_userId d),
     created = Some (DateObj (d_created d)), favorites = None\<rparr>"

section \<open>The remote document store\<close>

subsection \<open>Queries\<close>

datatype fvalue = VBool bool | VStr string

datatype constraint = Where string string fvalue | OrderBy string string

text \<open>
  A query on the collection \<open>events\<close> is the list of its constraints;
  \<open>query(q, c)\<close> adds a constraint to \<open>q\<close>.
\<close>

type_synonym query = "constraint list"

definition query :: "query \<Rightarrow> constraint list \<Rightarrow> query" where
  "query q cs = q @ cs"

definition eventsRef :: query where
  "eventsRef = []"

subsection \<open>Requests, responses and the store's answers\<close>

datatype update = SetFields eventData | ArrayUnion string | ArrayRemove string

datatype request =
    GetDocs query
  | UpdateDoc string update
  | AddDoc eventData
  | DeleteDoc string

text \<open>A response is the value the awaited promise resolves to, or the error it rejects with.\<close>

datatype response = Docs "event list" | DocRef string | Ack | Failed string

definition field :: "event \<Rightarrow> string \<Rightarrow> fvalue option" where
  "field e f =
     (if f = ''isPrivate'' then map_option VBool (isPrivate e)
      else if f = ''category'' then map_option VStr (category e)
      else if f = ''userId'' then map_option VStr (userId e)
      else None)"

definition orderKey :: "event \<Rightarrow> string \<Rightarrow> int option" where
  "orderKey e f =
     (if f = ''created'' then map_option time_key (created e)
      else if f = ''datetime'' then map_option time_key (datetime e)
      else None)"

text \<open>
  Modelled from the spec: the remote document store, the service behind \<open>getDocs\<close>,
  \<open>updateDoc\<close> and \<open>addDoc\<close>, is not among the sources of the repository. Its answers
  follow section 6 of the specification: the predicates of a query are equalities and
  are logically ANDed, an optional order clause sorts the result. Where the
  specification is silent the model takes what the store's client library documents:
  a document without the order field is not in the result of an ordered query, and a
  query without an order clause returns the documents in the store's own order (here
  the order of the list).
\<close>

fun matches :: "event \<Rightarrow> constraint \<Rightarrow> bool" where
  "matches e (Where f opr v) = (opr = ''=='' \<and> field e f = Some v)"
| "matches e (OrderBy f d) = (orderKey e f \<noteq> None)"

fun orderOf :: "query \<Rightarrow> (string \<times> string) option" where
  "orderOf [] = None"
| "orderOf (Where f opr v # q) = orderOf q"
| "orderOf (OrderBy f d # q) = Some (f, d)"

definition keyOf :: "string \<Rightarrow> event \<Rightarrow> int" where
  "keyOf f e = (case orderKey e f of Some k \<Rightarrow> k | None \<Rightarrow> 0)"

definition runQuery :: "query \<Rightarrow> event list \<Rightarrow> event list" where
  "runQuery q docs =
     (let hits = filter (\<lambda>e. list_all (matches e) q) docs in
      case orderOf q of
        None \<Rightarrow> hits
      | Some (f, d) \<Rightarrow>
          if d = ''desc'' then sort_key (\<lambda>e. - keyOf f e) hits
          else sort_key (keyOf f) hits)"

text \<open>
  Modelled from the spec: the writes of the same store. \<open>updateDocument\<close> replaces the
  given fields of one document and fails when there is no such document, the set
  patches add to and remove from the \<open>favorites\<close> field without duplicates, and
  \<open>addDocument\<close> assigns the id. The store keeps a \<open>Date\<close> as a \<open>Timestamp\<close>.
\<close>

fun applyUpdate :: "update \<Rightarrow> event \<Rightarrow> event" where
  "applyUpdate (SetFields d) e = e\<lparr>
     name := Some (d_name d), description := Some (d_description d),
     datetime := Some (fromDate (d_datetime d)), isPrivate := Some (d_isPrivate d),
     category := Some (d_category d), userId := Some (d_userId d),
     created := Some (fromDate (d_created d))\<rparr>"
| "applyUpdate (ArrayUnion u) e = e\<lparr>favorites :=
     Some (case favorites e of None \<Rightarrow> [u]
           | Some fs \<Rightarrow> if u \<in> set fs then fs else fs @ [u])\<rparr>"
| "applyUpdate (ArrayRemove u) e = e\<lparr>favorites :=
     Some (case favorites e of None \<Rightarrow> [] | Some fs \<Rightarrow> filter (\<lambda>x. x \<noteq> u) fs)\<rparr>"

definition storedEvent :: "string \<Rightarrow> eventData \<Rightarrow> event" where
  "storedEvent i d = \<lparr>
     id' = i, name = Some (d_name d), description = Some (d_description d),
     datetime = Some (fromDate (d_datetime d)), isPrivate = Some (d_isPrivate d),
     category = Some (d_category d), userId = Some (d_userId d),
     created = Some (fromDate (d_created d)), favorites = None\<rparr>"

text \<open>
  The store's answer to a request, and the store after it: \<open>fresh\<close> is the id the store
  assigns to a document it adds.
\<close>

fun exec :: "string \<Rightarrow> request \<Rightarrow> event list \<Rightarrow> response \<times> event list" where
  "exec fresh (GetDocs q) docs = (Docs (runQuery q docs), docs)"
| "exec fresh (UpdateDoc i u) docs =
     (if i \<in> set (map id' docs)
      then (Ack, map (\<lambda>e. if id' e = i then applyUpdate u e else e) docs)
      else (Failed ''not-found'', docs))"
| "exec fresh (AddDoc d) docs = (DocRef fresh, docs @ [storedEvent fresh d])"
| "exec fresh (DeleteDoc i) docs = (Ack, filter (\<lambda>e. id' e \<noteq> i) docs)"

subsection \<open>Asynchronous handlers\<close>

text \<open>
  Every handler of the two pages awaits the store at most once. A handler is modelled
  as a task: either it has finished with a state, or it is suspended with the state it
  has reached, the request it has sent, and the continuation that runs, on the state of
  that later moment, when the response arrives.
\<close>

datatype 's task = Done 's | Await 's request "response \<Rightarrow> 's \<Rightarrow> 's"

text \<open>The state while the handler waits for the store.\<close>

fun pending :: "'s task \<Rightarrow> 's" where
  "pending (Done s) = s"
| "pending (Await s q k) = s"

fun requestOf :: "'s task \<Rightarrow> request option" where
  "requestOf (Done s) = None"
| "requestOf (Await s q k) = Some q"

text \<open>The state after the response \<open>r\<close> has arrived, nothing else having run in between.\<close>

fun complete :: "response \<Rightarrow> 's task \<Rightarrow> 's" where
  "complete r (Done s) = s"
| "complete r (Await s q k) = k r s"

text \<open>
  A handler run against the store: when the network is down (\<open>ok\<close> is false) the promise
  rejects and the store is as it was.
\<close>

fun perform :: "bool \<Rightarrow> string \<Rightarrow> 's task \<Rightarrow> event list \<Rightarrow> 's \<times> event list" where
  "perform ok fresh (Done s) docs = (s, docs)"
| "perform ok fresh (Await s q k) docs =
     (if ok then (k (fst (exec fresh q docs)) s, snd (exec fresh q docs))
      else (k (Failed ''unavailable'') s, docs))"

section \<open>The public page (Home.jsx)\<close>

text \<open>
  What the page writes to the console: \<open>console.error("Event load failed", m)\<close>,
  \<open>console.error("Error toggling favorite", m)\<close>, and \<open>console.error(err)\<close> of the
  management page.
\<close>

datatype log = LogLoadFailed string | LogToggleFailed string | LogError string

text \<open>
  The signals of the page, prefixed with \<open>h_\<close> (the management page has signals of the
  same names), and the console. The page has no signal for a notice.
\<close>

record home_state =
  h_events :: "event list"
  h_loading :: bool
  h_favorites :: "string list"
  h_selectedCategory :: string
  h_console :: "log list"

definition home_init :: home_state where
  "home_init = \<lparr>h_events = [], h_loading = False, h_favorites = [],
     h_selectedCategory = ''All'', h_console = []\<rparr>"

text \<open>Everything of the state that the markup of the page reads.\<close>

definition home_view :: "home_state \<Rightarrow> event list \<times> bool \<times> string list \<times> string" where
  "home_view s = (h_events s, h_loading s, h_favorites s, h_selectedCategory s)"

text \<open>
  The session: the uid of the current user when \<open>isAuthenticated()\<close> holds. The
  constant \<open>userId\<close> of the handlers is written \<open>uid\<close>, \<open>userId\<close> being a field of events.
\<close>

type_synonym session = "string option"

definition home_query :: "string \<Rightarrow> query" where
  "home_query selectedCategory =
     (let q = query eventsRef [Where ''isPrivate'' ''=='' (VBool False)] in
      if selectedCategory \<noteq> ''All''
      then query q [Where ''category'' ''=='' (VStr selectedCategory)]
      else q)"

definition home_loadFailed :: "string \<Rightarrow> home_state \<Rightarrow> home_state" where
  "home_loadFailed msg s = s\<lparr>h_console := h_console s @ [LogLoadFailed msg], h_loading := False\<rparr>"

text \<open>\<open>event.favorites?.includes(userId)\<close>\<close>

definition favoritedBy :: "string \<Rightarrow> event \<Rightarrow> bool" where
  "favoritedBy uid event =
     (case favorites event of None \<Rightarrow> False | Some fs \<Rightarrow> uid \<in> set fs)"

definition home_loadEvents :: "session \<Rightarrow> home_state \<Rightarrow> home_state task" where
  "home_loadEvents session s =
     Await (s\<lparr>h_loading := True\<rparr>) (GetDocs (home_query (h_selectedCategory s)))
       (\<lambda>r s'. case r of
          Docs loadedEvents \<Rightarrow>
            (let s1 = s'\<lparr>h_events := loadedEvents\<rparr>;
                 s2 = (case session of
                         Some uid \<Rightarrow>
                           s1\<lparr>h_favorites := map id' (filter (favoritedBy uid) loadedEvents)\<rparr>
                       | None \<Rightarrow> s1)
             in s2\<lparr>h_loading := False\<rparr>)
        | Failed msg \<Rightarrow> home_loadFailed msg s'
        | _ \<Rightarrow> home_loadFailed ''TypeError'' s')"

text \<open>\<open>event.favorites || []\<close>\<close>

definition orEmpty :: "'a list option \<Rightarrow> 'a list" where
  "orEmpty v = (case v of None \<Rightarrow> [] | Some xs \<Rightarrow> xs)"

text \<open>
  \<open>toggleFavorite\<close>: \<open>isFavorite\<close> is read from the favorites index before the request is
  sent; the two signals are written after the awaited \<open>updateDoc\<close> has resolved, and
  not at all when it rejects.
\<close>

definition toggleFavorite :: "session \<Rightarrow> string \<Rightarrow> home_state \<Rightarrow> home_state task" where
  "toggleFavorite session eventId s =
     (case session of
        None \<Rightarrow> Done s
      | Some uid \<Rightarrow>
          (let isFavorite = (eventId \<in> set (h_favorites s)) in
           Await s
             (UpdateDoc eventId (if isFavorite then ArrayRemove uid else ArrayUnion uid))
             (\<lambda>r s'. case r of
                Failed msg \<Rightarrow> s'\<lparr>h_console := h_console s' @ [LogToggleFailed msg]\<rparr>
              | _ \<Rightarrow>
                s'\<lparr>h_favorites :=
                     (if isFavorite then filter (\<lambda>i. i \<noteq> eventId) (h_favorites s')
                      else h_favorites s' @ [eventId]),
                   h_events :=
                     map (\<lambda>event.
                            if id' event = eventId
                            then event\<lparr>favorites := Some
                              (if isFavorite
                               then filter (\<lambda>i. i \<noteq> uid) (orEmpty (favorites event))
                               else orEmpty (favorites event) @ [uid])\<rparr>
                            else event)
                         (h_events s')\<rparr>)))"

subsection \<open>Runs of the public page\<close>

text \<open>
  What can happen to the page and the store, one step at a time: an effect reloads the
  catalog, the user picks a category (the effect reloads when the value has changed),
  the user toggles a favorite, or other clients change the store (document ids stay
  unique). Each request carries whether the network delivers it. The effects call
  \<open>loadEvents\<close> only for an authenticated session.
\<close>

datatype home_action =
    Reload bool
  | SelectCategory string bool
  | ToggleFavorite string bool
  | StoreChanged "event list"

fun home_step :: "session \<Rightarrow> home_action \<Rightarrow> home_state \<times> event list \<Rightarrow> home_state \<times> event list" where
  "home_step session (Reload ok) (s, docs) =
     (if session = None then (s, docs)
      else perform ok [] (home_loadEvents session s) docs)"
| "home_step session (SelectCategory c ok) (s, docs) =
     (if c = h_selectedCategory s then (s, docs)
      else if session = None then (s\<lparr>h_selectedCategory := c\<rparr>, docs)
      else perform ok [] (home_loadEvents session (s\<lparr>h_selectedCategory := c\<rparr>)) docs)"
| "home_step session (ToggleFavorite eventId ok) (s, docs) =
     perform ok [] (toggleFavorite session eventId s) docs"
| "home_step session (StoreChanged docs') (s, docs) =
     (s, if distinct (map id' docs') then docs' else docs)"

definition home_run :: "session \<Rightarrow> home_action list \<Rightarrow> home_state \<times> event list" where
  "home_run session acts = foldl (\<lambda>st a. home_step session a st) (home_init, []) acts"

section \<open>The management page (EventManagement.jsx)\<close>

subsection \<open>The datetime field of the form\<close>

text \<open>
  \<open>Date.prototype.toISOString\<close>, for the form binder: a \<open>Date\<close> holds a time value of at
  most 8.64e15 milliseconds either side of the epoch, and \<open>toISOString\<close> throws a
  RangeError on any other (\<open>None\<close>). Years 0 to 9999 are written with four digits,
  the others with a sign and six.
\<close>

definition validTime :: "int \<Rightarrow> bool" where
  "validTime t = (- 8640000000000000 \<le> t \<and> t \<le> 8640000000000000)"

definition digit :: "int \<Rightarrow> char" where
  "digit n = char_of (48 + n mod 10)"

text \<open>The last \<open>k\<close> decimal digits of \<open>n\<close>.\<close>

fun pad :: "nat \<Rightarrow> int \<Rightarrow> string" where
  "pad 0 n = []"
| "pad (Suc k) n = pad k (n div 10) @ [digit n]"

text \<open>Year, month and day of a day number (days since 1970-01-01), proleptic Gregorian.\<close>

definition civil :: "int \<Rightarrow> int \<times> int \<times> int" where
  "civil z =
     (let z1 = z + 719468;
          era = z1 div 146097;
          doe = z1 mod 146097;
          yoe = (doe - doe div 1460 + doe div 36524 - doe div 146096) div 365;
          doy = doe - (365 * yoe + yoe div 4 - yoe div 100);
          mp = (5 * doy + 2) div 153;
          d = doy - (153 * mp + 2) div 5 + 1;
          m = (if mp < 10 then mp + 3 else mp - 9);
          y = yoe + era * 400 + (if m \<le> 2 then 1 else 0)
      in (y, m, d))"

definition yearString :: "int \<Rightarrow> string" where
  "yearString y =
     (if 0 \<le> y \<and> y \<le> 9999 then pad 4 y
      else (if y < 0 then ''-'' else ''+'') @ pad 6 \<bar>y\<bar>)"

definition toISOString :: "int \<Rightarrow> string option" where
  "toISOString t =
     (if \<not> validTime t then None
      else
        (let (y, m, d) = civil (t div 86400000);
             r = t mod 86400000
         in Some (yearString y @ ''-'' @ pad 2 m @ ''-'' @ pad 2 d @ ''T'' @
                  pad 2 (r div 3600000) @ '':'' @ pad 2 (r div 60000 mod 60) @ '':'' @
                  pad 2 (r div 1000 mod 60) @ ''.'' @ pad 3 (r mod 1000) @ ''Z'')))"

text \<open>
  The binder's lines for the datetime field:
  \<open>const date = ev.datetime.toDate ? ev.datetime.toDate() : ev.datetime\<close>, then
  \<open>new Date(date.getTime() - date.getTimezoneOffset() * 60000).toISOString().slice(0, 16)\<close>.
  \<open>tz\<close> is \<open>getTimezoneOffset\<close> of the browser, the offset in minutes at a point in time,
  and \<open>toDate\<close> the conversion of the store's client library.
\<close>

definition datetimeFieldValue ::
  "(int \<Rightarrow> int) \<Rightarrow> (int \<Rightarrow> nat \<Rightarrow> int) \<Rightarrow> js_datetime \<Rightarrow> string option" where
  "datetimeFieldValue tz toDate dt =
     (let date = (case dt of Timestamp seconds nanoseconds \<Rightarrow> toDate seconds nanoseconds
                  | DateObj ms \<Rightarrow> ms)
      in map_option (take 16) (toISOString (date - tz date * 60000)))"

subsection \<open>State\<close>

text \<open>
  The notices of the page, for the texts it shows: a failed load, a failed search, event
  updated, event added, update failed, adding failed.
\<close>

datatype notice = LoadError | SearchError | Updated | Added | UpdateFailed | AddFailed

text \<open>The fields of the form element \<open>formRef\<close>.\<close>

record form =
  fm_name :: jsstring
  fm_description :: jsstring
  fm_category :: string
  fm_datetime :: string
  fm_isPrivate :: bool

text \<open>\<open>reset()\<close>: the select falls back to its first option, \<open>CATEGORIES[0]\<close>.\<close>

definition form_reset :: form where
  "form_reset = \<lparr>fm_name = [], fm_description = [], fm_category = ''Sports'',
     fm_datetime = [], fm_isPrivate = False\<rparr>"

text \<open>
  What the signal \<open>selectedEvent\<close> holds besides \<open>null\<close>: an event of the list, or the object
  \<open>{ ...null, ...eventData }\<close>, which has the fields of \<open>eventData\<close> and no \<open>id\<close>; \<open>handleSubmit\<close>
  builds the latter when the selection has been dropped while its update was under way.
\<close>

datatype selection = Selected event | Detached eventData

text \<open>The signals of the page, prefixed with \<open>m_\<close>, the form and the console.\<close>

record mgmt_state =
  m_searchTerm :: jsstring
  m_filterCategory :: string
  m_events :: "event list"
  m_selectedEvent :: "selection option"
  m_loading :: bool
  m_error :: "notice option"
  m_success :: "notice option"
  m_form :: form
  m_console :: "log list"

definition mgmt_init :: mgmt_state where
  "mgmt_init = \<lparr>m_searchTerm = [], m_filterCategory = [], m_events = [],
     m_selectedEvent = None, m_loading = False, m_error = None, m_success = None,
     m_form = form_reset, m_console = []\<rparr>"

subsection \<open>Loading and searching\<close>

text \<open>The query that \<open>loadEvents\<close> and \<open>searchEvents\<close> both compose.\<close>

definition mgmt_query :: "string \<Rightarrow> string \<Rightarrow> query" where
  "mgmt_query uid filterCategory =
     (let q = query eventsRef [Where ''userId'' ''=='' (VStr uid), OrderBy ''created'' ''desc''] in
      if filterCategory \<noteq> []
      then query q [Where ''category'' ''=='' (VStr filterCategory)]
      else q)"

definition mgmt_loadFailed :: "string \<Rightarrow> mgmt_state \<Rightarrow> mgmt_state" where
  "mgmt_loadFailed msg s =
     s\<lparr>m_console := m_console s @ [LogError msg], m_error := Some LoadError, m_loading := False\<rparr>"

text \<open>
  \<open>loadEvents\<close>: without a current user, \<open>getCurrentUser().uid\<close> throws inside the
  \<open>try\<close> block.
\<close>

definition mgmt_loadEvents :: "session \<Rightarrow> mgmt_state \<Rightarrow> mgmt_state task" where
  "mgmt_loadEvents session s =
     (let s1 = s\<lparr>m_loading := True\<rparr> in
      case session of
        None \<Rightarrow> Done (mgmt_loadFailed ''TypeError'' s1)
      | Some uid \<Rightarrow>
          Await s1 (GetDocs (mgmt_query uid (m_filterCategory s)))
            (\<lambda>r s'. case r of
               Docs loadedEvents \<Rightarrow> s'\<lparr>m_events := loadedEvents, m_loading := False\<rparr>
             | Failed msg \<Rightarrow> mgmt_loadFailed msg s'
             | _ \<Rightarrow> mgmt_loadFailed ''TypeError'' s'))"

definition mgmt_searchFailed :: "string \<Rightarrow> mgmt_state \<Rightarrow> mgmt_state" where
  "mgmt_searchFailed msg s =
     s\<lparr>m_console := m_console s @ [LogError msg], m_error := Some SearchError, m_loading := False\<rparr>"

text \<open>\<open>event.name?.toLowerCase().includes(term)\<close>\<close>

definition nameIncludes :: "(jsstring \<Rightarrow> jsstring) \<Rightarrow> jsstring \<Rightarrow> event \<Rightarrow> bool" where
  "nameIncludes toLowerCase term event =
     (case name event of None \<Rightarrow> False | Some n \<Rightarrow> includes_str (toLowerCase n) term)"

definition searchEvents ::
  "(jsstring \<Rightarrow> jsstring) \<Rightarrow> session \<Rightarrow> mgmt_state \<Rightarrow> mgmt_state task" where
  "searchEvents toLowerCase session s =
     (let term = trim (toLowerCase (m_searchTerm s)) in
      if term = [] \<or> length term \<le> 2 then mgmt_loadEvents session s
      else
        (let s1 = s\<lparr>m_loading := True\<rparr> in
         case session of
           None \<Rightarrow> Done (mgmt_searchFailed ''TypeError'' s1)
         | Some uid \<Rightarrow>
             Await s1 (GetDocs (mgmt_query uid (m_filterCategory s)))
               (\<lambda>r s'. case r of
                  Docs docs \<Rightarrow>
                    s'\<lparr>m_events := filter (nameIncludes toLowerCase term) docs,
                       m_loading := False\<rparr>
                | Failed msg \<Rightarrow> mgmt_searchFailed msg s'
                | _ \<Rightarrow> mgmt_searchFailed ''TypeError'' s')))"

subsection \<open>Submitting the form\<close>

text \<open>
  \<open>handleSubmit\<close>. \<open>now\<close> is \<open>new Date()\<close> and \<open>dt\<close> is \<open>new Date(data.get("datetime"))\<close>,
  the point in time the browser reads from the datetime field. Without a current user
  the handler stops at \<open>getCurrentUser().uid\<close>, before the \<open>try\<close> block. A selected object
  without an \<open>id\<close> makes \<open>doc(db, "events", undefined)\<close> throw inside the \<open>try\<close> block.

  After the await the handler reads \<open>selectedEvent()\<close> again, inside the callback of
  \<open>events().map\<close> and in the spread. If the selection has been dropped while the request
  was under way, the callback throws on the first event of the mirror; on an empty
  mirror it is never called, and the handler selects \<open>{ ...null, ...eventData }\<close> and
  reports the update as done. If the selection has no \<open>id\<close> by then, no event of the
  mirror has its id.
\<close>

definition submitFailed :: "string \<Rightarrow> mgmt_state \<Rightarrow> mgmt_state" where
  "submitFailed msg s =
     s\<lparr>m_console := m_console s @ [LogError msg],
       m_error := Some (if m_selectedEvent s \<noteq> None then UpdateFailed else AddFailed)\<rparr>"

definition buildEventData :: "string \<Rightarrow> int \<Rightarrow> int \<Rightarrow> form \<Rightarrow> eventData" where
  "buildEventData uid now dt f =
     EventData (trim (fm_name f)) (trim (fm_description f)) dt (fm_isPrivate f)
       (if fm_category f = [] then ''Other'' else fm_category f) uid now"

definition updateResolved :: "eventData \<Rightarrow> mgmt_state \<Rightarrow> mgmt_state" where
  "updateResolved eventData s' =
     (case m_selectedEvent s' of
        None \<Rightarrow>
          if m_events s' = []
          then s'\<lparr>m_selectedEvent := Some (Detached eventData), m_success := Some Updated\<rparr>
          else submitFailed ''TypeError'' s'
      | Some (Selected cur) \<Rightarrow>
          s'\<lparr>m_events :=
               map (\<lambda>ev. if id' ev = id' cur then spread ev eventData else ev) (m_events s'),
             m_selectedEvent := Some (Selected (spread cur eventData)),
             m_success := Some Updated\<rparr>
      | Some (Detached d) \<Rightarrow>
          s'\<lparr>m_selectedEvent := Some (Detached eventData), m_success := Some Updated\<rparr>)"

definition handleSubmit :: "session \<Rightarrow> int \<Rightarrow> int \<Rightarrow> mgmt_state \<Rightarrow> mgmt_state task" where
  "handleSubmit session now dt s =
     (let s0 = s\<lparr>m_error := None, m_success := None\<rparr> in
      case session of
        None \<Rightarrow> Done s0
      | Some uid \<Rightarrow>
          (let eventData = buildEventData uid now dt (m_form s0) in
           case m_selectedEvent s0 of
             Some (Selected sel) \<Rightarrow>
               Await s0 (UpdateDoc (id' sel) (SetFields eventData))
                 (\<lambda>r s'. case r of
                    Failed msg \<Rightarrow> submitFailed msg s'
                  | _ \<Rightarrow> updateResolved eventData s')
           | Some (Detached d) \<Rightarrow> Done (submitFailed ''TypeError'' s0)
           | None \<Rightarrow>
               Await s0 (AddDoc eventData)
                 (\<lambda>r s'. case r of
                    DocRef i \<Rightarrow>
                      s'\<lparr>m_events := m_events s' @ [newEvent i eventData],
                         m_form := form_reset, m_success := Some Added\<rparr>
                  | Failed msg \<Rightarrow> submitFailed msg s'
                  | _ \<Rightarrow> submitFailed ''TypeError'' s')))"

subsection \<open>The form binder\<close>

text \<open>
  What a control of the form holds after the code has assigned a string to its \<open>value\<close>
  is the browser's doing (a select keeps only the value of one of its options, a
  datetime-local input only a valid local date and time, a text input no line breaks).
  The binder takes these functions as the parameter \<open>ctl\<close>.
\<close>

record controls =
  textValue :: "jsstring \<Rightarrow> jsstring"
  textareaValue :: "jsstring \<Rightarrow> jsstring"
  selectValue :: "string \<Rightarrow> string"
  datetimeLocalValue :: "string \<Rightarrow> string"

text \<open>
  The body of the effect, on the fields it reads from the selected object: \<open>name\<close>,
  \<open>description\<close>, \<open>category\<close>, \<open>datetime\<close> and \<open>!!isPrivate\<close>. A RangeError of \<open>toISOString\<close>
  ends it before the checkbox is set.
\<close>

definition populate ::
  "controls \<Rightarrow> (int \<Rightarrow> int) \<Rightarrow> (int \<Rightarrow> nat \<Rightarrow> int) \<Rightarrow> jsstring option \<Rightarrow> jsstring option
     \<Rightarrow> string option \<Rightarrow> js_datetime option \<Rightarrow> bool \<Rightarrow> form \<Rightarrow> form" where
  "populate ctl tz toDate nm ds cat dtv priv f =
     (let f1 = f\<lparr>
            fm_name := textValue ctl (orEmpty nm),
            fm_description := textareaValue ctl (orEmpty ds),
            fm_category := selectValue ctl (if orEmpty cat = [] then ''Other'' else orEmpty cat)\<rparr>
      in case dtv of
           None \<Rightarrow> f1\<lparr>fm_isPrivate := priv\<rparr>
         | Some dt \<Rightarrow>
             (case datetimeFieldValue tz toDate dt of
                None \<Rightarrow> f1
              | Some v \<Rightarrow> f1\<lparr>fm_datetime := datetimeLocalValue ctl v, fm_isPrivate := priv\<rparr>))"

text \<open>
  The effect that fills the form from the selected object; it runs whenever
  \<open>selectedEvent\<close> changes.
\<close>

definition bindForm ::
  "controls \<Rightarrow> (int \<Rightarrow> int) \<Rightarrow> (int \<Rightarrow> nat \<Rightarrow> int) \<Rightarrow> mgmt_state \<Rightarrow> mgmt_state" where
  "bindForm ctl tz toDate s =
     (case m_selectedEvent s of
        None \<Rightarrow> s
      | Some (Selected ev) \<Rightarrow>
          s\<lparr>m_form := populate ctl tz toDate (name ev) (description ev) (category ev)
                        (datetime ev) (isPrivate ev = Some True) (m_form s)\<rparr>
      | Some (Detached d) \<Rightarrow>
          s\<lparr>m_form := populate ctl tz toDate (Some (d_name d)) (Some (d_description d))
                        (Some (d_category d)) (Some (DateObj (d_datetime d))) (d_isPrivate d)
                        (m_form s)\<rparr>)"

section \<open>Notions of the specification\<close>

text \<open>
  The event's name contains the term as a case-insensitive substring: after both are put
  in lower case, the term is a contiguous part of the name. An event without a name
  contains no term.
\<close>

definition containsCI :: "(jsstring \<Rightarrow> jsstring) \<Rightarrow> jsstring \<Rightarrow> event \<Rightarrow> bool" where
  "containsCI toLowerCase term e =
     (case name e of None \<Rightarrow> False
      | Some n \<Rightarrow> sublist (toLowerCase term) (toLowerCase n))"

text \<open>The event's name, put in lower case, contains the string \<open>t\<close> as it is.\<close>

definition lowerNameContains :: "(jsstring \<Rightarrow> jsstring) \<Rightarrow> jsstring \<Rightarrow> event \<Rightarrow> bool" where
  "lowerNameContains toLowerCase t e =
     (case name e of None \<Rightarrow> False | Some n \<Rightarrow> sublist t (toLowerCase n))"

text \<open>
  The scoped, category-filtered query result of the owner's view: the documents of the
  store whose \<open>userId\<close> is the user's and, when a category is chosen, whose \<open>category\<close> is
  that one, the newest first. The store leaves a document without \<open>created\<close> out of a
  result it orders by that field.
\<close>

definition createdKey :: "event \<Rightarrow> int" where
  "createdKey e = (case created e of None \<Rightarrow> 0 | Some t \<Rightarrow> time_key t)"

definition ownerCatalog :: "string \<Rightarrow> string \<Rightarrow> event list \<Rightarrow> event list" where
  "ownerCatalog uid cat docs =
     sort_key (\<lambda>e. - createdKey e)
       (filter (\<lambda>e. userId e = Some uid \<and> (cat = [] \<or> category e = Some cat)
                     \<and> created e \<noteq> None) docs)"

text \<open>
  The point in time a \<open>datetime\<close> value denotes, as the milliseconds of a \<open>Date\<close>; the local
  time of a point in time, for the offset \<open>tz\<close> of the browser; and the wall-clock string
  of a local time: year, month, day, \<open>T\<close>, hour and minute, cut to 16 characters as the
  binder cuts it (a year outside 0 to 9999 has a sign and six digits).
\<close>

definition instant :: "(int \<Rightarrow> nat \<Rightarrow> int) \<Rightarrow> js_datetime \<Rightarrow> int" where
  "instant toDate dt =
     (case dt of DateObj ms \<Rightarrow> ms | Timestamp seconds nanoseconds \<Rightarrow> toDate seconds nanoseconds)"

definition localTime :: "(int \<Rightarrow> int) \<Rightarrow> int \<Rightarrow> int" where
  "localTime tz t = t - tz t * 60000"

definition wallClock :: "int \<Rightarrow> string" where
  "wallClock t =
     (case civil (t div 86400000) of
        (y, m, d) \<Rightarrow>
          take 16 (yearString y @ ''-'' @ pad 2 m @ ''-'' @ pad 2 d @ ''T'' @
                   pad 2 (t div 3600000 mod 24) @ '':'' @ pad 2 (t div 60000 mod 60)))"

text \<open>
  A list of events is ordered by \<open>created\<close> descending: every event has the field, and no
  event is older than one that follows it.
\<close>

definition notOlder :: "event \<Rightarrow> event \<Rightarrow> bool" where
  "notOlder a b =
     (case created a of None \<Rightarrow> False
      | Some x \<Rightarrow> (case created b of None \<Rightarrow> False | Some y \<Rightarrow> time_key y \<le> time_key x))"

definition createdDesc :: "event list \<Rightarrow> bool" where
  "createdDesc es = sorted_wrt notOlder es"

text \<open>The set of users in the \<open>favorites\<close> field of an event of the mirror.\<close>

definition favoriteSet :: "event \<Rightarrow> string set" where
  "favoriteSet e = set (orEmpty (favorites e))"

text \<open>A toggle whose patch the store has acknowledged.\<close>

definition toggled :: "string \<Rightarrow> string \<Rightarrow> home_state \<Rightarrow> home_state" where
  "toggled uid eventId s = complete Ack (toggleFavorite (Some uid) eventId s)"

text \<open>
  The favorites index agrees with the mirror for user \<open>uid\<close>: an event of the mirror is in
  the index exactly when the user is in its \<open>favorites\<close> field.
\<close>

definition indexAgrees :: "string \<Rightarrow> home_state \<Rightarrow> bool" where
  "indexAgrees uid s =
     list_all (\<lambda>e. (id' e \<in> set (h_favorites s)) = favoritedBy uid e) (h_events s)"

section \<open>Example data\<close>

text \<open>
  The catalog of the specification's scenario: \<open>A\<close> is a public Music event, \<open>B\<close> a
  private Sports event; \<open>C\<close> is a newer public event that user \<open>u1\<close> has among the
  favorites.
\<close>

definition eventA :: event where
  "eventA = \<lparr>id' = ''A'', name = Some (js ''Concert''), description = Some (js ''Open air''),
     datetime = Some (Timestamp 1740819600 0), isPrivate = Some False,
     category = Some ''Music'', userId = Some ''u2'', created = Some (Timestamp 1000 0),
     favorites = None\<rparr>"

definition eventB :: event where
  "eventB = \<lparr>id' = ''B'', name = Some (js ''Training''), description = Some (js ''Members only''),
     datetime = Some (Timestamp 1740906000 0), isPrivate = Some True,
     category = Some ''Sports'', userId = Some ''u2'', created = Some (Timestamp 2000 0),
     favorites = None\<rparr>"

definition eventC :: event where
  "eventC = \<lparr>id' = ''C'', name = Some (js ''City run''), description = Some (js ''10 km''),
     datetime = Some (Timestamp 1740992400 0), isPrivate = Some False,
     category = Some ''Sports'', userId = Some ''u3'', created = Some (Timestamp 3000 0),
     favorites = Some [''u1'']\<rparr>"

text \<open>The public page of user \<open>u1\<close> showing \<open>A\<close> and \<open>C\<close>.\<close>

definition homeAC :: home_state where
  "homeAC = \<lparr>h_events = [eventA, eventC], h_loading = False, h_favorites = [''C''],
     h_selectedCategory = ''All'', h_console = []\<rparr>"

text \<open>
  Three events of user \<open>u1\<close>, and the management page showing the older two, the newer
  first.
\<close>

definition eventM1 :: event where
  "eventM1 = \<lparr>id' = ''M1'', name = Some (js ''Picnic''), description = Some (js ''By the lake''),
     datetime = Some (Timestamp 1740819600 0), isPrivate = Some False,
     category = Some ''Social'', userId = Some ''u1'', created = Some (Timestamp 1000 0),
     favorites = None\<rparr>"

definition eventM2 :: event where
  "eventM2 = \<lparr>id' = ''M2'', name = Some (js ''Cup match''), description = Some (js ''Final''),
     datetime = Some (Timestamp 1740906000 0), isPrivate = Some True,
     category = Some ''Sports'', userId = Some ''u1'', created = Some (Timestamp 2000 0),
     favorites = None\<rparr>"

definition eventM3 :: event where
  "eventM3 = \<lparr>id' = ''M3'', name = Some (js ''Epic cup''), description = Some (js ''Replay''),
     datetime = Some (Timestamp 1740992400 0), isPrivate = Some False,
     category = Some ''Sports'', userId = Some ''u1'', created = Some (Timestamp 3000 0),
     favorites = None\<rparr>"

definition mgmtM :: mgmt_state where
  "mgmtM = \<lparr>m_searchTerm = [], m_filterCategory = [], m_events = [eventM2, eventM1],
     m_selectedEvent = None, m_loading = False, m_error = None, m_success = None,
     m_form = \<lparr>fm_name = js '' Picnic again '', fm_description = js ''By the river'',
       fm_category = ''Social'', fm_datetime = ''2025-03-01T10:00'', fm_isPrivate = False\<rparr>,
     m_console = []\<rparr>"

text \<open>The page of a user who has no event yet, with the form filled in.\<close>

definition mgmtEmpty :: mgmt_state where
  "mgmtEmpty = mgmtM\<lparr>m_events := []\<rparr>"

text \<open>The same page with \<open>M1\<close> selected for editing.\<close>

definition mgmtSel :: mgmt_state where
  "mgmtSel = mgmtM\<lparr>m_selectedEvent := Some (Selected eventM1)\<rparr>"

text \<open>
  The same page with the category Sports chosen and the search term \<open>PIC\<close> between two
  blanks; with the same category and the term \<open>pi\<close> between two blanks; and with no
  category and the term of the two code units U+0130 and \<open>a\<close>.
\<close>

definition mgmtPic :: mgmt_state where
  "mgmtPic = mgmtM\<lparr>m_searchTerm := js '' PIC '', m_filterCategory := ''Sports''\<rparr>"

definition mgmtPi :: mgmt_state where
  "mgmtPi = mgmtM\<lparr>m_searchTerm := js '' pi '', m_filterCategory := ''Sports''\<rparr>"

definition mgmtIa :: mgmt_state where
  "mgmtIa = mgmtM\<lparr>m_searchTerm := [304, 97]\<rparr>"

text \<open>The store with the events of two users.\<close>

definition storeM :: "event list" where
  "storeM = [eventA, eventM1, eventM2, eventM3]"

text \<open>
  The page with \<open>M1\<close> selected, its \<open>datetime\<close> being the \<open>Date\<close> of 2025-03-01 09:00 UTC; the
  \<open>Date\<close> of 15:00 UTC on that day, for a browser five hours behind UTC; and the
  \<open>Timestamp\<close> of 09:00 UTC, as the store delivers it.
\<close>

definition mgmtSelDate :: mgmt_state where
  "mgmtSelDate =
     mgmtM\<lparr>m_selectedEvent := Some (Selected (eventM1\<lparr>datetime := Some (DateObj 1740819600000)\<rparr>))\<rparr>"

definition mgmtSelWest :: mgmt_state where
  "mgmtSelWest =
     mgmtM\<lparr>m_selectedEvent := Some (Selected (eventM1\<lparr>datetime := Some (DateObj 1740841200000)\<rparr>))\<rparr>"

definition mgmtSelStamp :: mgmt_state where
  "mgmtSelStamp =
     mgmtM\<lparr>m_selectedEvent := Some (Selected (eventM1\<lparr>datetime := Some (Timestamp 1740819600 0)\<rparr>))\<rparr>"

text \<open>A run of the public page: the store comes to hold \<open>A\<close>, \<open>B\<close> and \<open>C\<close>, then the page loads.\<close>

definition runAC :: "home_action list" where
  "runAC = [StoreChanged [eventA, eventB, eventC], Reload True]"

section \<open>Facts about strings and points in time\<close>

lemma startsWith_prefix: "startsWith s t = prefix t s"
  by (induction s t rule: startsWith.induct) auto

lemma includes_str_sublist: "includes_str s t = sublist t s"
  by (induction s) (simp_all add: startsWith_prefix sublist_Cons_right)

text \<open>The lengths of the parts of a date string.\<close>

lemma length_pad: "length (pad k n) = k"
  by (induction k arbitrary: n) simp_all

lemma take_prefix: "n \<le> length xs \<Longrightarrow> take n (xs @ ys) = take n xs"
  by simp

lemma length_yearString: "4 \<le> length (yearString y)"
  by (simp add: yearString_def length_pad)

lemma hour_of_day: "(t::int) mod 86400000 div 3600000 = t div 3600000 mod 24"
proof -
  have "t mod (3600000 * 24) = 3600000 * (t div 3600000 mod 24) + t mod 3600000"
    by (rule zmod_zmult2_eq) simp
  then have "t mod 86400000 div 3600000
      = (3600000 * (t div 3600000 mod 24) + t mod 3600000) div 3600000"
    by simp
  also have "\<dots> = t div 3600000 mod 24"
    by simp
  finally show ?thesis .
qed

lemma minute_of_day: "(t::int) mod 86400000 div 60000 mod 60 = t div 60000 mod 60"
proof -
  have "t mod (60000 * 1440) = 60000 * (t div 60000 mod 1440) + t mod 60000"
    by (rule zmod_zmult2_eq) simp
  then have "t mod 86400000 div 60000
      = (60000 * (t div 60000 mod 1440) + t mod 60000) div 60000"
    by simp
  also have "\<dots> = t div 60000 mod 1440"
    by simp
  finally have "t mod 86400000 div 60000 mod 60 = t div 60000 mod 1440 mod 60"
    by simp
  also have "\<dots> = t div 60000 mod 60"
    by (rule mod_mod_cancel) simp
  finally show ?thesis .
qed

text \<open>
  \<open>toISOString\<close> on known dates: the epoch, the millisecond before it, a leap day, the
  first day of the year 10000, a day before the year 0 and a time out of range.
\<close>

lemma toISOString_examples:
  "toISOString 0 = Some ''1970-01-01T00:00:00.000Z''"
  "toISOString (- 1) = Some ''1969-12-31T23:59:59.999Z''"
  "toISOString 951782400000 = Some ''2000-02-29T00:00:00.000Z''"
  "toISOString 253402300800000 = Some ''+010000-01-01T00:00:00.000Z''"
  "toISOString (- 62198755200001) = Some ''-000002-12-31T23:59:59.999Z''"
  "toISOString 8640000000000001 = None"
  by code_simp+

text \<open>What the binder assigns to the datetime field: the wall-clock string of the local time.\<close>

lemma toISOString_take16:
  assumes "validTime t"
  shows "map_option (take 16) (toISOString t) = Some (wallClock t)"
proof -
  obtain y m d where c: "civil (t div 86400000) = (y, m, d)"
    by (cases "civil (t div 86400000)")
  let ?head = "yearString y @ ''-'' @ pad 2 m @ ''-'' @ pad 2 d @ ''T'' @
     pad 2 (t div 3600000 mod 24) @ '':'' @ pad 2 (t div 60000 mod 60)"
  let ?tail = "'':'' @ pad 2 (t mod 86400000 div 1000 mod 60) @ ''.'' @
     pad 3 (t mod 86400000 mod 1000) @ ''Z''"
  have iso: "toISOString t = Some (?head @ ?tail)"
    using assms by (simp add: toISOString_def c hour_of_day minute_of_day Let_def)
  have "16 \<le> length ?head"
    using length_yearString [of y] by (simp add: length_pad)
  then have "take 16 (?head @ ?tail) = take 16 ?head"
    by (rule take_prefix)
  then show ?thesis
    by (simp add: iso wallClock_def c)
qed

lemma datetimeFieldValue_wallClock:
  "datetimeFieldValue tz toDate dt =
     (if validTime (localTime tz (instant toDate dt))
      then Some (wallClock (localTime tz (instant toDate dt))) else None)"
proof (cases "validTime (localTime tz (instant toDate dt))")
  case True
  then show ?thesis
    using toISOString_take16 [of "localTime tz (instant toDate dt)"]
    by (simp add: datetimeFieldValue_def instant_def localTime_def Let_def)
next
  case False
  then show ?thesis
    by (simp add: datetimeFieldValue_def instant_def localTime_def Let_def toISOString_def)
qed

section \<open>Facts about the store and the handlers\<close>

lemma created_spread: "created (spread ev d) = Some (DateObj (d_created d))"
  and userId_spread: "userId (spread ev d) = Some (d_userId d)"
  and id_spread: "id' (spread ev d) = id' ev"
  by (simp_all add: spread_def)

lemma created_SetFields: "created (applyUpdate (SetFields d) e) = Some (fromDate (d_created d))"
  and userId_SetFields: "userId (applyUpdate (SetFields d) e) = Some (d_userId d)"
  and id_applyUpdate: "id' (applyUpdate u e) = id' e"
  by (cases u; simp)+

lemma buildEventData_created: "d_created (buildEventData uid now dt f) = now"
  and buildEventData_userId: "d_userId (buildEventData uid now dt f) = uid"
  by (simp_all add: buildEventData_def)

lemma created_newEvent: "created (newEvent i d) = Some (DateObj (d_created d))"
  by (simp add: newEvent_def)

lemma handleSubmit_update_performed:
  assumes "m_selectedEvent s = Some (Selected sel)" and "id' sel \<in> set (map id' docs)"
  shows "perform True fresh (handleSubmit (Some uid) now dt s) docs =
    (s\<lparr>m_error := None, m_success := Some Updated,
        m_events := map (\<lambda>ev. if id' ev = id' sel
                               then spread ev (buildEventData uid now dt (m_form s)) else ev)
                      (m_events s),
        m_selectedEvent :=
          Some (Selected (spread sel (buildEventData uid now dt (m_form s))))\<rparr>,
     map (\<lambda>e. if id' e = id' sel
              then applyUpdate (SetFields (buildEventData uid now dt (m_form s))) e else e) docs)"
  using assms by (simp add: handleSubmit_def updateResolved_def Let_def)

lemma handleSubmit_create_completed:
  assumes "m_selectedEvent s = None"
  shows "complete (DocRef i) (handleSubmit (Some uid) now dt s) =
     s\<lparr>m_error := None, m_success := Some Added, m_form := form_reset,
       m_events := m_events s @ [newEvent i (buildEventData uid now dt (m_form s))]\<rparr>"
  using assms by (simp add: handleSubmit_def Let_def)

lemma orderOf_mgmt_query: "orderOf (mgmt_query uid c) = Some (''created'', ''desc'')"
  by (simp add: mgmt_query_def query_def eventsRef_def Let_def)

lemma orderOf_home_query: "orderOf (home_query c) = None"
  by (simp add: home_query_def query_def eventsRef_def Let_def)

lemma matches_mgmt_query:
  "list_all (matches e) (mgmt_query uid c)
     = (userId e = Some uid \<and> created e \<noteq> None \<and> (c = [] \<or> category e = Some c))"
  by (auto simp: mgmt_query_def query_def eventsRef_def Let_def field_def orderKey_def)

lemma matches_home_query:
  "list_all (matches e) (home_query c)
     = (isPrivate e = Some False \<and> (c = ''All'' \<or> category e = Some c))"
  by (auto simp: home_query_def query_def eventsRef_def Let_def field_def)

text \<open>
  What the two composed queries return: the public documents (of the category, unless
  it is \<open>All\<close>) in the store's order, and the user's documents (of the category, if one is
  chosen) that have a \<open>created\<close> field, sorted.
\<close>

lemma runQuery_home:
  "runQuery (home_query c) docs
     = filter (\<lambda>e. isPrivate e = Some False \<and> (c = ''All'' \<or> category e = Some c)) docs"
  by (simp add: runQuery_def orderOf_home_query matches_home_query)

lemma runQuery_mgmt:
  "runQuery (mgmt_query uid c) docs
     = sort_key (\<lambda>e. - keyOf ''created'' e)
         (filter (\<lambda>e. userId e = Some uid \<and> created e \<noteq> None
                       \<and> (c = [] \<or> category e = Some c)) docs)"
  by (simp add: runQuery_def orderOf_mgmt_query matches_mgmt_query)

lemma set_runQuery_mgmt:
  "set (runQuery (mgmt_query uid c) docs)
     = {e \<in> set docs. userId e = Some uid \<and> created e \<noteq> None
                      \<and> (c = [] \<or> category e = Some c)}"
  by (simp add: runQuery_mgmt)

lemma createdDesc_sort_key:
  assumes "\<forall>e \<in> set es. created e \<noteq> None"
  shows "createdDesc (sort_key (\<lambda>e. - keyOf ''created'' e) es)"
proof -
  let ?r = "sort_key (\<lambda>e. - keyOf ''created'' e) es"
  have "sorted (map (\<lambda>e. - keyOf ''created'' e) ?r)"
    by (rule sorted_sort_key)
  then have s: "sorted_wrt (\<lambda>a b. - keyOf ''created'' a \<le> - keyOf ''created'' b) ?r"
    by (simp add: sorted_map)
  have "sorted_wrt notOlder ?r"
  proof (rule sorted_wrt_mono_rel [OF _ s])
    fix a b
    assume "a \<in> set ?r" and "b \<in> set ?r"
      and le: "- keyOf ''created'' a \<le> - keyOf ''created'' b"
    then have "created a \<noteq> None" and "created b \<noteq> None"
      using assms by simp_all
    then obtain x y where "created a = Some x" and "created b = Some y"
      by auto
    with le show "notOlder a b"
      by (simp add: notOlder_def keyOf_def orderKey_def)
  qed
  then show ?thesis
    by (simp add: createdDesc_def)
qed

lemma createdDesc_runQuery_mgmt: "createdDesc (runQuery (mgmt_query uid c) docs)"
  unfolding runQuery_mgmt by (rule createdDesc_sort_key) simp

lemma createdDesc_snoc:
  "createdDesc (es @ [e]) = (createdDesc es \<and> list_all (\<lambda>x. notOlder x e) es)"
  by (auto simp: createdDesc_def sorted_wrt_append list_all_iff)

text \<open>The result of the owner's query is the scoped, category-filtered result.\<close>

lemma runQuery_ownerCatalog:
  "runQuery (mgmt_query uid c) docs = ownerCatalog uid c docs"
proof -
  have k: "keyOf ''created'' = createdKey"
    by (rule ext) (simp add: keyOf_def orderKey_def createdKey_def split: option.splits)
  have "filter (\<lambda>e. userId e = Some uid \<and> created e \<noteq> None
                      \<and> (c = [] \<or> category e = Some c)) docs
      = filter (\<lambda>e. userId e = Some uid \<and> (c = [] \<or> category e = Some c)
                      \<and> created e \<noteq> None) docs"
    by (rule filter_cong) auto
  then show ?thesis
    by (simp only: runQuery_mgmt ownerCatalog_def k)
qed

lemma searchEvents_short:
  assumes "length (trim (toLowerCase (m_searchTerm s))) \<le> 2"
  shows "searchEvents toLowerCase session s = mgmt_loadEvents session s"
  using assms by (simp add: searchEvents_def Let_def)

lemma mgmt_loadEvents_performed:
  "perform True fresh (mgmt_loadEvents (Some uid) s) docs =
     (s\<lparr>m_loading := False, m_events := ownerCatalog uid (m_filterCategory s) docs\<rparr>, docs)"
  by (simp add: mgmt_loadEvents_def Let_def runQuery_ownerCatalog)

lemma nameIncludes_lowerNameContains:
  "nameIncludes toLowerCase t = lowerNameContains toLowerCase t"
  by (rule ext)
    (simp add: nameIncludes_def lowerNameContains_def includes_str_sublist split: option.splits)

lemma searchEvents_performed:
  assumes "2 < length (trim (toLowerCase (m_searchTerm s)))"
  shows "perform True fresh (searchEvents toLowerCase (Some uid) s) docs =
     (s\<lparr>m_loading := False,
        m_events := filter (lowerNameContains toLowerCase (trim (toLowerCase (m_searchTerm s))))
                      (ownerCatalog uid (m_filterCategory s) docs)\<rparr>, docs)"
proof -
  from assms have "\<not> (trim (toLowerCase (m_searchTerm s)) = []
      \<or> length (trim (toLowerCase (m_searchTerm s))) \<le> 2)"
    by auto
  then show ?thesis
    by (simp add: searchEvents_def Let_def nameIncludes_lowerNameContains
        runQuery_ownerCatalog)
qed

lemma requestOf_searchEvents:
  "requestOf (searchEvents toLowerCase (Some uid) s)
     = Some (GetDocs (mgmt_query uid (m_filterCategory s)))"
  by (simp add: searchEvents_def mgmt_loadEvents_def Let_def)

text \<open>The example store, as the owner's view of user \<open>u1\<close> gets it.\<close>

lemma ownerCatalog_storeM:
  "ownerCatalog ''u1'' [] storeM = [eventM3, eventM2, eventM1]"
  "ownerCatalog ''u1'' ''Social'' storeM = [eventM1]"
  "ownerCatalog ''u1'' ''Sports'' storeM = [eventM3, eventM2]"
  by (simp_all add: ownerCatalog_def storeM_def createdKey_def eventA_def eventM1_def
      eventM2_def eventM3_def)

text \<open>The example search terms, lower-cased and trimmed, and the lower-cased names.\<close>

lemma sample_terms:
  "trim (toLowerCase_sample (js '' PIC '')) = js ''pic''"
  "trim (toLowerCase_sample (js '' pi '')) = js ''pi''"
  "trim (toLowerCase_sample [304, 97]) = [105, 775, 97]"
  "trim [304, 97] = [304, 97]"
  "trim (js '' PIC '') = js ''PIC''"
  by (simp_all add: js_def trim_def toLowerCase_sample_def toLowerCase_sample_unit_def
      isWhiteSpace_def)

lemma sample_names:
  "toLowerCase_sample (js ''Picnic'') = js ''picnic''"
  "toLowerCase_sample (js ''Cup match'') = js ''cup match''"
  "toLowerCase_sample (js ''Epic cup'') = js ''epic cup''"
  "toLowerCase_sample (js '' PIC '') = js '' pic ''"
  by (simp_all add: js_def toLowerCase_sample_def toLowerCase_sample_unit_def)

section \<open>Facts about the public page\<close>

lemma home_loadEvents_performed:
  "perform ok fresh (home_loadEvents session s) docs =
     (if ok
      then (s\<lparr>h_loading := False,
              h_events := runQuery (home_query (h_selectedCategory s)) docs,
              h_favorites := (case session of None \<Rightarrow> h_favorites s
                 | Some uid \<Rightarrow> map id' (filter (favoritedBy uid)
                     (runQuery (home_query (h_selectedCategory s)) docs)))\<rparr>, docs)
      else (s\<lparr>h_loading := False,
              h_console := h_console s @ [LogLoadFailed ''unavailable'']\<rparr>, docs))"
  by (simp add: home_loadEvents_def home_loadFailed_def Let_def split: option.splits)

lemma toggleFavorite_performed:
  "perform ok fresh (toggleFavorite (Some uid) eventId s) docs =
     (if ok \<and> eventId \<in> set (map id' docs)
      then (toggled uid eventId s,
            map (\<lambda>e. if id' e = eventId
                     then applyUpdate (if eventId \<in> set (h_favorites s) then ArrayRemove uid
                                       else ArrayUnion uid) e
                     else e) docs)
      else (s\<lparr>h_console := h_console s @
                [LogToggleFailed (if ok then ''not-found'' else ''unavailable'')]\<rparr>, docs))"
  by (simp add: toggleFavorite_def toggled_def Let_def)

lemma toggleFavorite_unauthenticated:
  "perform ok fresh (toggleFavorite None eventId s) docs = (s, docs)"
  by (simp add: toggleFavorite_def)

lemma toggled_favorites:
  "h_favorites (toggled uid eventId s)
     = (if eventId \<in> set (h_favorites s) then filter (\<lambda>i. i \<noteq> eventId) (h_favorites s)
        else h_favorites s @ [eventId])"
  by (simp add: toggled_def toggleFavorite_def Let_def)

lemma toggled_events:
  "h_events (toggled uid eventId s)
     = map (\<lambda>event. if id' event = eventId
              then event\<lparr>favorites := Some
                (if eventId \<in> set (h_favorites s)
                 then filter (\<lambda>i. i \<noteq> uid) (orEmpty (favorites event))
                 else orEmpty (favorites event) @ [uid])\<rparr>
              else event) (h_events s)"
  by (simp add: toggled_def toggleFavorite_def Let_def)

lemma indexAgrees_toggled:
  assumes "indexAgrees uid s"
  shows "indexAgrees uid (toggled uid eventId s)"
  using assms
  by (auto simp: indexAgrees_def list_all_iff toggled_favorites toggled_events
      favoritedBy_def orEmpty_def split: option.splits)

lemma isPrivate_toggled: "map isPrivate (h_events (toggled uid eventId s)) = map isPrivate (h_events s)"
  by (simp add: toggled_events comp_def if_distrib cong: if_cong)

lemma favoritedBy_favoriteSet: "favoritedBy uid e = (uid \<in> favoriteSet e)"
  by (simp add: favoritedBy_def favoriteSet_def orEmpty_def split: option.splits)

text \<open>
  Every step of a run leaves the events of the mirror public: a load replaces them by
  the result of a query on \<open>isPrivate == false\<close>, a toggle writes their \<open>favorites\<close> fields
  only.
\<close>

lemma home_step_public:
  assumes "list_all (\<lambda>e. isPrivate e = Some False) (h_events (fst st))"
  shows "list_all (\<lambda>e. isPrivate e = Some False) (h_events (fst (home_step session a st)))"
proof -
  obtain s docs where st: "st = (s, docs)"
    by (cases st)
  have load: "list_all (\<lambda>e. isPrivate e = Some False)
      (h_events (fst (perform ok [] (home_loadEvents session s') docs)))"
    if "h_events s' = h_events s" for ok s'
    using assms that by (simp add: home_loadEvents_performed st runQuery_home list_all_iff)
  have viamap: "list_all (\<lambda>e. isPrivate e = Some False) es
        = list_all (\<lambda>b. b = Some False) (map isPrivate es)" for es :: "event list"
    by (simp add: list_all_iff)
  have tog: "list_all (\<lambda>e. isPrivate e = Some False)
      (h_events (fst (perform ok [] (toggleFavorite session eventId s) docs)))" for ok eventId
  proof (cases session)
    case None
    then show ?thesis using assms by (simp add: toggleFavorite_unauthenticated st)
  next
    case (Some uid)
    have "list_all (\<lambda>e. isPrivate e = Some False) (h_events (toggled uid eventId s))"
      using assms by (simp add: viamap isPrivate_toggled st)
    then show ?thesis
      using assms Some by (simp add: toggleFavorite_performed st)
  qed
  show ?thesis
  proof (cases a)
    case (Reload ok)
    then show ?thesis using load [of s ok] assms by (simp add: st)
  next
    case (SelectCategory c ok)
    then show ?thesis
      using load [of "s\<lparr>h_selectedCategory := c\<rparr>" ok] assms by (simp add: st)
  next
    case (ToggleFavorite eventId ok)
    then show ?thesis using tog by (simp add: st)
  next
    case (StoreChanged docs')
    then show ?thesis using assms by (simp add: st)
  qed
qed

lemma home_run_snoc:
  "home_run session (acts @ [a]) = home_step session a (home_run session acts)"
  by (simp add: home_run_def)

lemma home_run_public:
  "list_all (\<lambda>e. isPrivate e = Some False) (h_events (fst (home_run session acts)))"
proof (induction acts rule: rev_induct)
  case Nil
  then show ?case by (simp add: home_run_def home_init_def)
next
  case (snoc a acts)
  then show ?case by (simp add: home_run_snoc home_step_public)
qed

text \<open>
  Every step of a run of an authenticated user keeps the index in agreement with the
  mirror: a load computes the index from the events it has loaded, whose ids are
  unique, and a toggle changes the index and the \<open>favorites\<close> field of the event in the
  same direction.
\<close>

lemma indexAgrees_loaded:
  assumes "distinct (map id' docs)"
  shows "indexAgrees uid (fst (perform ok fresh (home_loadEvents (Some uid) s) docs))
         = (ok \<or> indexAgrees uid s)"
proof (cases ok)
  case False
  then show ?thesis
    by (simp add: home_loadEvents_performed indexAgrees_def)
next
  case True
  let ?l = "runQuery (home_query (h_selectedCategory s)) docs"
  have "distinct (map id' ?l)"
    using assms by (simp add: runQuery_home distinct_map_filter)
  then have inj: "inj_on id' (set ?l)"
    by (simp add: distinct_map)
  have "(id' e \<in> id' ` {x \<in> set ?l. favoritedBy uid x}) = favoritedBy uid e"
    if "e \<in> set ?l" for e
    using that inj by (auto dest: inj_onD)
  then show ?thesis
    using True by (simp add: home_loadEvents_performed indexAgrees_def list_all_iff)
qed

lemma home_step_agrees:
  assumes "distinct (map id' (snd st))" and "indexAgrees uid (fst st)"
  shows "distinct (map id' (snd (home_step (Some uid) a st)))
         \<and> indexAgrees uid (fst (home_step (Some uid) a st))"
proof -
  obtain s docs where st: "st = (s, docs)"
    by (cases st)
  from assms have d: "distinct (map id' docs)" and i: "indexAgrees uid s"
    by (simp_all add: st)
  have keep: "map id' (map (\<lambda>e. if id' e = k then applyUpdate u e else e) docs) = map id' docs"
    for k u
    by (simp add: comp_def id_applyUpdate if_distrib cong: if_cong)
  show ?thesis
  proof (cases a)
    case (Reload ok)
    then show ?thesis
      using indexAgrees_loaded [OF d, of uid ok "[]" s] d i
      by (simp add: st home_loadEvents_performed)
  next
    case (SelectCategory c ok)
    have "indexAgrees uid (s\<lparr>h_selectedCategory := c\<rparr>)"
      using i by (simp add: indexAgrees_def)
    then show ?thesis
      using SelectCategory indexAgrees_loaded [OF d, of uid ok "[]" "s\<lparr>h_selectedCategory := c\<rparr>"] d i
      by (simp add: st home_loadEvents_performed)
  next
    case (ToggleFavorite eventId ok)
    have "indexAgrees uid (s\<lparr>h_console := c\<rparr>)" for c
      using i by (simp add: indexAgrees_def)
    then show ?thesis
      using ToggleFavorite d indexAgrees_toggled [OF i, of eventId]
      by (simp add: st toggleFavorite_performed keep del: map_map)
  next
    case (StoreChanged docs')
    then show ?thesis using d i by (simp add: st)
  qed
qed

lemma home_run_agrees:
  "distinct (map id' (snd (home_run (Some uid) acts)))
   \<and> indexAgrees uid (fst (home_run (Some uid) acts))"
proof (induction acts rule: rev_induct)
  case Nil
  then show ?case by (simp add: home_run_def home_init_def indexAgrees_def)
next
  case (snoc a acts)
  then show ?case by (simp add: home_run_snoc home_step_agrees)
qed

lemma toggled_twice_favorites:
  "(eventId \<in> set (h_favorites (toggled uid eventId (toggled uid eventId s))))
     = (eventId \<in> set (h_favorites s))"
  by (simp add: toggled_favorites)

lemma toggled_twice_sets:
  assumes "indexAgrees uid s"
  shows "map favoriteSet (h_events (toggled uid eventId (toggled uid eventId s)))
         = map favoriteSet (h_events s)"
proof -
  have "favoriteSet (g2 (g1 e)) = favoriteSet e"
    if "e \<in> set (h_events s)"
      and "g1 = (\<lambda>event. if id' event = eventId
              then event\<lparr>favorites := Some
                (if eventId \<in> set (h_favorites s)
                 then filter (\<lambda>i. i \<noteq> uid) (orEmpty (favorites event))
                 else orEmpty (favorites event) @ [uid])\<rparr>
              else event)"
      and "g2 = (\<lambda>event. if id' event = eventId
              then event\<lparr>favorites := Some
                (if eventId \<in> set (h_favorites (toggled uid eventId s))
                 then filter (\<lambda>i. i \<noteq> uid) (orEmpty (favorites event))
                 else orEmpty (favorites event) @ [uid])\<rparr>
              else event)" for e g1 g2
  proof -
    have "(eventId \<in> set (h_favorites s)) = favoritedBy uid e" if "id' e = eventId"
      using assms \<open>e \<in> set (h_events s)\<close> that by (auto simp: indexAgrees_def list_all_iff)
    then show ?thesis
      unfolding that(2,3)
      by (auto simp: toggled_favorites favoriteSet_def favoritedBy_def orEmpty_def
          split: option.splits)
  qed
  then show ?thesis
    by (simp add: toggled_events [of uid eventId "toggled uid eventId s"]
        toggled_events [of uid eventId s])
qed

lemma home_run_runAC:
  "home_run (Some ''u1'') runAC = (homeAC, [eventA, eventB, eventC])"
proof -
  have d: "distinct (map id' [eventA, eventB, eventC])"
    by (simp add: eventA_def eventB_def eventC_def)
  have r: "runQuery (home_query ''All'') [eventA, eventB, eventC] = [eventA, eventC]"
    by (simp add: runQuery_home eventA_def eventB_def eventC_def)
  have f: "\<not> favoritedBy ''u1'' eventA" "favoritedBy ''u1'' eventC"
    by (simp_all add: favoritedBy_def eventA_def eventC_def)
  have i: "id' eventA = ''A''" "id' eventB = ''B''" "id' eventC = ''C''"
    by (simp_all add: eventA_def eventB_def eventC_def)
  show ?thesis
    unfolding runAC_def home_run_def
    by (simp add: home_loadEvents_performed home_init_def r f i homeAC_def)
qed

section \<open>The favorite toggle and the remote patch\<close>

text \<open>
  Claim C1, as the code has it. For every call of the favorite toggle on an event by an
  authenticated user, nothing is written locally before the remote patch is
  acknowledged: while the handler waits, the state is the state before the call. If the
  patch fails, the state of the page is as before the call, except for one more line on
  the console; nothing the markup reads has changed, so the failure is not surfaced to
  the user and there is nothing to roll back. If the patch succeeds, the membership bit
  of the favorites index is flipped, and the current user is in the \<open>favorites\<close> field of
  every mirror entry of that event exactly when the new bit is set.
\<close>

theorem toggleFavorite_flips_after_ack:
  "pending (toggleFavorite (Some uid) eventId s) = s
   \<and> complete (Failed msg) (toggleFavorite (Some uid) eventId s)
       = s\<lparr>h_console := h_console s @ [LogToggleFailed msg]\<rparr>
   \<and> home_view (complete (Failed msg) (toggleFavorite (Some uid) eventId s)) = home_view s
   \<and> (eventId \<in> set (h_favorites (complete Ack (toggleFavorite (Some uid) eventId s))))
       = (eventId \<notin> set (h_favorites s))
   \<and> map (favoritedBy uid)
         (filter (\<lambda>e. id' e = eventId)
            (h_events (complete Ack (toggleFavorite (Some uid) eventId s))))
       = map (\<lambda>e. eventId \<notin> set (h_favorites s)) (filter (\<lambda>e. id' e = eventId) (h_events s))"
  by (simp add: toggleFavorite_def Let_def home_view_def filter_map comp_def
      favoritedBy_def orEmpty_def)

text \<open>
  Claim C1 as the specification states it fails: user \<open>u1\<close> toggles event \<open>A\<close>, which is
  not a favorite. The bit is not set while the handler waits for the store, and it is
  not set after the patch has failed, neither in the favorites index nor in the
  \<open>favorites\<close> field of \<open>A\<close> in the mirror: there is no optimistic flip to leave in place.
\<close>

theorem toggleFavorite_failure_counterexample:
  "\<not> (''A'' \<in> set (h_favorites homeAC))
   \<and> \<not> (''A'' \<in> set (h_favorites (pending (toggleFavorite (Some ''u1'') ''A'' homeAC))))
   \<and> \<not> (''A'' \<in> set (h_favorites
           (complete (Failed ''unavailable'') (toggleFavorite (Some ''u1'') ''A'' homeAC))))
   \<and> map (favoritedBy ''u1'')
        (h_events (complete (Failed ''unavailable'') (toggleFavorite (Some ''u1'') ''A'' homeAC)))
      = [False, True]
   \<and> map (favoritedBy ''u1'') (h_events homeAC) = [False, True]"
  by (simp add: toggleFavorite_def homeAC_def favoritedBy_def eventA_def eventC_def)

section \<open>Updating the selected event\<close>

text \<open>
  Claim C2 says that a successful update of the selected event leaves \<open>created\<close> and
  \<open>userId\<close> of the stored document and of the mirror entry as they were. The code sends
  the whole \<open>eventData\<close>, with \<open>created: new Date()\<close>, to \<open>updateDoc\<close> and spreads it over
  the mirror entry. User \<open>u1\<close> edits the event \<open>M1\<close>, created at second 1000, at second
  5000: after the update the mirror entry has \<open>created\<close> at second 5000, and so has
  the stored document; \<open>userId\<close> is still \<open>u1\<close> in both.
\<close>

theorem handleSubmit_update_resets_created:
  "map created (m_events (fst (perform True []
       (handleSubmit (Some ''u1'') 5000000 1740819600000 mgmtSel) [eventM1, eventM2])))
     = [Some (Timestamp 2000 0), Some (DateObj 5000000)]
   \<and> map created (snd (perform True []
       (handleSubmit (Some ''u1'') 5000000 1740819600000 mgmtSel) [eventM1, eventM2]))
     = [Some (Timestamp 5000 0), Some (Timestamp 2000 0)]
   \<and> map created (m_events mgmtSel) = [Some (Timestamp 2000 0), Some (Timestamp 1000 0)]
   \<and> map userId (m_events (fst (perform True []
       (handleSubmit (Some ''u1'') 5000000 1740819600000 mgmtSel) [eventM1, eventM2])))
     = [Some ''u1'', Some ''u1'']
   \<and> map userId (snd (perform True []
       (handleSubmit (Some ''u1'') 5000000 1740819600000 mgmtSel) [eventM1, eventM2]))
     = [Some ''u1'', Some ''u1'']
   \<and> m_success (fst (perform True []
       (handleSubmit (Some ''u1'') 5000000 1740819600000 mgmtSel) [eventM1, eventM2]))
     = Some Updated"
proof -
  have sel: "m_selectedEvent mgmtSel = Some (Selected eventM1)"
    by (simp add: mgmtSel_def)
  have ev: "m_events mgmtSel = [eventM2, eventM1]"
    by (simp add: mgmtSel_def mgmtM_def)
  have ids: "id' eventM1 = ''M1''" "id' eventM2 = ''M2''"
    by (simp_all add: eventM1_def eventM2_def)
  have cr: "created eventM1 = Some (Timestamp 1000 0)" "created eventM2 = Some (Timestamp 2000 0)"
    by (simp_all add: eventM1_def eventM2_def)
  have us: "userId eventM1 = Some ''u1''" "userId eventM2 = Some ''u1''"
    by (simp_all add: eventM1_def eventM2_def)
  have fd: "fromDate 5000000 = Timestamp 5000 0"
    by (simp add: fromDate_def)
  show ?thesis
    by (simp add: handleSubmit_update_performed [OF sel] ev ids cr us fd created_spread
        userId_spread created_SetFields userId_SetFields buildEventData_created
        buildEventData_userId)
qed

section \<open>The order of the composed queries\<close>

text \<open>
  Claim C3, as the code has it. The owner-scoped query carries the order clause
  \<open>created\<close> descending with or without a category filter, and its result is ordered by
  \<open>created\<close> descending; it is the query that \<open>loadEvents\<close> of the management page sends,
  and the query that \<open>searchEvents\<close> sends, for every search term. The public-browse
  query, which \<open>loadEvents\<close> of the public page sends, carries no order clause, for any
  selected category: its result is the matching documents in the store's own order.
\<close>

theorem owner_query_ordered_public_query_not:
  "orderOf (mgmt_query uid filterCategory) = Some (''created'', ''desc'')
   \<and> createdDesc (runQuery (mgmt_query uid filterCategory) docs)
   \<and> requestOf (mgmt_loadEvents (Some uid) s)
       = Some (GetDocs (mgmt_query uid (m_filterCategory s)))
   \<and> requestOf (searchEvents toLowerCase (Some uid) s)
       = Some (GetDocs (mgmt_query uid (m_filterCategory s)))
   \<and> orderOf (home_query selectedCategory) = None
   \<and> runQuery (home_query selectedCategory) docs
       = filter (\<lambda>e. list_all (matches e) (home_query selectedCategory)) docs
   \<and> requestOf (home_loadEvents session h)
       = Some (GetDocs (home_query (h_selectedCategory h)))"
proof -
  have "runQuery (home_query selectedCategory) docs
       = filter (\<lambda>e. list_all (matches e) (home_query selectedCategory)) docs"
    by (simp add: runQuery_def orderOf_home_query)
  moreover have "requestOf (mgmt_loadEvents (Some uid) s)
       = Some (GetDocs (mgmt_query uid (m_filterCategory s)))"
    by (simp add: mgmt_loadEvents_def Let_def)
  moreover have "requestOf (home_loadEvents session h)
       = Some (GetDocs (home_query (h_selectedCategory h)))"
    by (simp add: home_loadEvents_def)
  ultimately show ?thesis
    by (simp only: orderOf_mgmt_query createdDesc_runQuery_mgmt orderOf_home_query
        requestOf_searchEvents simp_thms)
qed

text \<open>
  Claim C3 as the specification states it fails for the public-browse query: the store
  holds \<open>A\<close>, \<open>B\<close> and \<open>C\<close> in this order, \<open>C\<close> being newer than \<open>A\<close>. Browsing with category
  \<open>All\<close> yields \<open>A\<close> before \<open>C\<close>, which is not ordered by \<open>created\<close> descending.
\<close>

theorem home_query_unordered_counterexample:
  "runQuery (home_query ''All'') [eventA, eventB, eventC] = [eventA, eventC]
   \<and> \<not> createdDesc (runQuery (home_query ''All'') [eventA, eventB, eventC])
   \<and> \<not> createdDesc (h_events (fst (perform True []
          (home_loadEvents (Some ''u1'') home_init) [eventA, eventB, eventC])))"
proof -
  have r: "runQuery (home_query ''All'') [eventA, eventB, eventC] = [eventA, eventC]"
    by (simp add: runQuery_home eventA_def eventB_def eventC_def)
  have n: "\<not> createdDesc [eventA, eventC]"
    by (simp add: createdDesc_def notOlder_def eventA_def eventC_def)
  have h: "h_selectedCategory home_init = ''All''"
    by (simp add: home_init_def)
  show ?thesis
    by (simp add: r n h home_loadEvents_def)
qed

section \<open>Toggling a favorite twice\<close>

text \<open>
  Claim C4. In every state that a run of the public page of an authenticated user
  reaches, and for every event: toggling the favorite status twice in sequence, both
  remote patches succeeding, returns the membership bit of the favorites index to its
  value before (the first toggle having flipped it), returns the user's membership in
  the \<open>favorites\<close> field of every mirror event to its value before, and leaves the set of
  users in that field, hence its cardinality, unchanged.
\<close>

theorem toggle_twice_restores:
  "(eventId \<in> set (h_favorites
       (toggled uid eventId (toggled uid eventId (fst (home_run (Some uid) acts))))))
     = (eventId \<in> set (h_favorites (fst (home_run (Some uid) acts))))
   \<and> (eventId \<in> set (h_favorites (toggled uid eventId (fst (home_run (Some uid) acts)))))
     = (eventId \<notin> set (h_favorites (fst (home_run (Some uid) acts))))
   \<and> map (favoritedBy uid)
        (h_events (toggled uid eventId (toggled uid eventId (fst (home_run (Some uid) acts)))))
     = map (favoritedBy uid) (h_events (fst (home_run (Some uid) acts)))
   \<and> map favoriteSet
        (h_events (toggled uid eventId (toggled uid eventId (fst (home_run (Some uid) acts)))))
     = map favoriteSet (h_events (fst (home_run (Some uid) acts)))
   \<and> map (\<lambda>e. card (favoriteSet e))
        (h_events (toggled uid eventId (toggled uid eventId (fst (home_run (Some uid) acts)))))
     = map (\<lambda>e. card (favoriteSet e)) (h_events (fst (home_run (Some uid) acts)))"
proof -
  let ?s = "fst (home_run (Some uid) acts)"
  let ?t = "toggled uid eventId (toggled uid eventId ?s)"
  have agrees: "indexAgrees uid ?s"
    using home_run_agrees [of uid acts] by simp
  have sets: "map favoriteSet (h_events ?t) = map favoriteSet (h_events ?s)"
    by (rule toggled_twice_sets [OF agrees])
  have "map ((\<lambda>S. uid \<in> S) \<circ> favoriteSet) (h_events ?t)
        = map ((\<lambda>S. uid \<in> S) \<circ> favoriteSet) (h_events ?s)"
    using sets by (simp only: map_map [symmetric])
  moreover have "favoritedBy uid = (\<lambda>S. uid \<in> S) \<circ> favoriteSet"
    by (rule ext) (simp add: favoritedBy_favoriteSet)
  ultimately have bits:
    "map (favoritedBy uid) (h_events ?t) = map (favoritedBy uid) (h_events ?s)"
    by simp
  have "map (card \<circ> favoriteSet) (h_events ?t) = map (card \<circ> favoriteSet) (h_events ?s)"
    using sets by (simp only: map_map [symmetric])
  then have cards: "map (\<lambda>e. card (favoriteSet e)) (h_events ?t)
        = map (\<lambda>e. card (favoriteSet e)) (h_events ?s)"
    by (simp add: comp_def)
  have once: "(eventId \<in> set (h_favorites (toggled uid eventId ?s)))
     = (eventId \<notin> set (h_favorites ?s))"
    by (simp add: toggled_favorites)
  from sets bits cards once show ?thesis
    by (simp add: toggled_twice_favorites)
qed

text \<open>
  The witness of C4: user \<open>u1\<close> has loaded \<open>A\<close> and \<open>C\<close>, with \<open>C\<close> a favorite. One toggle of
  \<open>C\<close> takes it out of the index and empties its \<open>favorites\<close> field, the second puts it
  back.
\<close>

theorem toggle_twice_restores_witness:
  "''C'' \<in> set (h_favorites (fst (home_run (Some ''u1'') runAC)))
   \<and> ''C'' \<notin> set (h_favorites (toggled ''u1'' ''C'' (fst (home_run (Some ''u1'') runAC))))
   \<and> ''C'' \<in> set (h_favorites
         (toggled ''u1'' ''C'' (toggled ''u1'' ''C'' (fst (home_run (Some ''u1'') runAC)))))
   \<and> map (\<lambda>e. card (favoriteSet e))
        (h_events (toggled ''u1'' ''C'' (toggled ''u1'' ''C'' (fst (home_run (Some ''u1'') runAC)))))
      = [0, 1]
   \<and> map (\<lambda>e. card (favoriteSet e))
        (h_events (toggled ''u1'' ''C'' (fst (home_run (Some ''u1'') runAC))))
      = [0, 0]"
proof -
  note th = toggle_twice_restores [of "''C''" "''u1''" runAC]
  have c: "''C'' \<in> set (h_favorites (fst (home_run (Some ''u1'') runAC)))"
    by (simp add: home_run_runAC homeAC_def)
  have k: "map (\<lambda>e. card (favoriteSet e)) (h_events (fst (home_run (Some ''u1'') runAC))) = [0, 1]"
    by (simp add: home_run_runAC homeAC_def favoriteSet_def orEmpty_def eventA_def eventC_def)
  have o: "map (\<lambda>e. card (favoriteSet e))
        (h_events (toggled ''u1'' ''C'' (fst (home_run (Some ''u1'') runAC)))) = [0, 0]"
    by (simp add: home_run_runAC homeAC_def toggled_events favoriteSet_def orEmpty_def
        eventA_def eventC_def)
  from th c k o show ?thesis
    by simp
qed

section \<open>Searching the owner's events\<close>

text \<open>
  Claim C5, as the code has it. The code puts the search term in lower case and trims
  it, and tests the length of the result. For every search term whose lower-cased,
  trimmed form is longer than 2 code units, searching the owner-scoped catalog sets the
  events collection to exactly those events of the scoped, category-filtered query
  result, in its order, whose lower-cased name contains that form of the term. The
  query result is the one a plain load puts into the collection: the user's documents,
  of the chosen category if there is one, the newest first.
\<close>

theorem searchEvents_filters_by_normalised_term:
  assumes "2 < length (trim (toLowerCase (m_searchTerm s)))"
  shows "m_events (fst (perform True fresh (searchEvents toLowerCase (Some uid) s) docs))
           = filter (lowerNameContains toLowerCase (trim (toLowerCase (m_searchTerm s))))
               (ownerCatalog uid (m_filterCategory s) docs)
         \<and> m_events (fst (perform True fresh (mgmt_loadEvents (Some uid) s) docs))
           = ownerCatalog uid (m_filterCategory s) docs"
  using assms by (simp add: searchEvents_performed mgmt_loadEvents_performed)

text \<open>
  The witness of C5: user \<open>u1\<close> has chosen the category Sports and searches for \<open>PIC\<close>
  between two blanks. Of the user's events, \<open>Picnic\<close> is not of the category and
  \<open>Cup match\<close> has no \<open>pic\<close> in its name; \<open>Epic cup\<close> is the result.
\<close>

theorem searchEvents_filters_by_normalised_term_witness:
  "2 < length (trim (toLowerCase_sample (m_searchTerm mgmtPic)))
   \<and> m_events (fst (perform True [] (searchEvents toLowerCase_sample (Some ''u1'') mgmtPic)
         storeM)) = [eventM3]
   \<and> m_events (fst (perform True [] (mgmt_loadEvents (Some ''u1'') mgmtPic) storeM))
       = [eventM3, eventM2]"
proof -
  have t: "m_searchTerm mgmtPic = js '' PIC ''" and c: "m_filterCategory mgmtPic = ''Sports''"
    by (simp_all add: mgmtPic_def)
  have l: "2 < length (trim (toLowerCase_sample (m_searchTerm mgmtPic)))"
    by (simp only: t sample_terms) (simp add: js_def)
  have n: "name eventM3 = Some (js ''Epic cup'')" "name eventM2 = Some (js ''Cup match'')"
    by (simp_all add: eventM3_def eventM2_def)
  have f: "filter (lowerNameContains toLowerCase_sample (js ''pic'')) [eventM3, eventM2]
      = [eventM3]"
    by (simp add: lowerNameContains_def n js_def toLowerCase_sample_def
        toLowerCase_sample_unit_def sublist_code)
  note th = searchEvents_filters_by_normalised_term
    [where toLowerCase = toLowerCase_sample and s = mgmtPic and fresh = "[]"
       and uid = "''u1''" and docs = storeM, OF l]
  have a: "m_events (fst (perform True [] (searchEvents toLowerCase_sample (Some ''u1'') mgmtPic)
         storeM)) = [eventM3]"
    using th [THEN conjunct1] by (simp only: t c sample_terms ownerCatalog_storeM f)
  have b: "m_events (fst (perform True [] (mgmt_loadEvents (Some ''u1'') mgmtPic) storeM))
       = [eventM3, eventM2]"
    using th [THEN conjunct2] by (simp only: c ownerCatalog_storeM)
  from l a b show ?thesis by simp
qed

text \<open>
  Claim C5 as the specification states it fails for a term with white space at its
  ends. In the same search the trimmed length of the term is 3 and the result is
  \<open>Epic cup\<close>, but no name of the catalog contains the term itself, \<open>PIC\<close> between two
  blanks, in any case of the letters: the subset the claim describes is empty.
\<close>

theorem searchEvents_untrimmed_term_counterexample:
  "2 < length (trim (m_searchTerm mgmtPic))
   \<and> m_events (fst (perform True [] (searchEvents toLowerCase_sample (Some ''u1'') mgmtPic)
         storeM)) = [eventM3]
   \<and> filter (containsCI toLowerCase_sample (m_searchTerm mgmtPic))
        (ownerCatalog ''u1'' (m_filterCategory mgmtPic) storeM) = []"
proof -
  have t: "m_searchTerm mgmtPic = js '' PIC ''" and c: "m_filterCategory mgmtPic = ''Sports''"
    by (simp_all add: mgmtPic_def)
  have l: "2 < length (trim (m_searchTerm mgmtPic))"
    by (simp only: t sample_terms) (simp add: js_def)
  have l': "2 < length (trim (toLowerCase_sample (m_searchTerm mgmtPic)))"
    by (simp only: t sample_terms) (simp add: js_def)
  have n: "name eventM3 = Some (js ''Epic cup'')" "name eventM2 = Some (js ''Cup match'')"
    by (simp_all add: eventM3_def eventM2_def)
  have f: "filter (lowerNameContains toLowerCase_sample (js ''pic'')) [eventM3, eventM2]
      = [eventM3]"
    by (simp add: lowerNameContains_def n js_def toLowerCase_sample_def
        toLowerCase_sample_unit_def sublist_code)
  have r: "filter (lowerNameContains toLowerCase_sample
        (trim (toLowerCase_sample (m_searchTerm mgmtPic))))
      (ownerCatalog ''u1'' (m_filterCategory mgmtPic) storeM) = [eventM3]"
    by (simp only: t c sample_terms ownerCatalog_storeM f)
  have a: "m_events (fst (perform True [] (searchEvents toLowerCase_sample (Some ''u1'') mgmtPic)
         storeM)) = [eventM3]"
    using l' by (simp add: searchEvents_performed r)
  have g: "filter (containsCI toLowerCase_sample (js '' PIC '')) [eventM3, eventM2] = []"
    by (simp add: containsCI_def n js_def toLowerCase_sample_def
        toLowerCase_sample_unit_def sublist_code)
  have g': "filter (containsCI toLowerCase_sample (m_searchTerm mgmtPic))
        (ownerCatalog ''u1'' (m_filterCategory mgmtPic) storeM) = []"
    by (simp only: t c ownerCatalog_storeM g)
  from l a g' show ?thesis
    by simp
qed

text \<open>
  Claim C6, as the code has it. For every search term whose lower-cased, trimmed form
  has at most 2 code units, the empty string included, searching is treated as no
  search: \<open>searchEvents\<close> is \<open>loadEvents\<close>, so the resulting events collection is the
  unfiltered scoped, category-filtered query result (the user's documents, of the
  chosen category if there is one, the newest first), and the input is no error: no
  notice is set and nothing is written to the console.
\<close>

theorem searchEvents_short_term_is_load:
  assumes "length (trim (toLowerCase (m_searchTerm s))) \<le> 2"
  shows "searchEvents toLowerCase session s = mgmt_loadEvents session s
         \<and> m_events (fst (perform True fresh (searchEvents toLowerCase (Some uid) s) docs))
           = ownerCatalog uid (m_filterCategory s) docs
         \<and> m_error (fst (perform True fresh (searchEvents toLowerCase (Some uid) s) docs))
           = m_error s
         \<and> m_console (fst (perform True fresh (searchEvents toLowerCase (Some uid) s) docs))
           = m_console s"
  using assms by (simp add: searchEvents_short mgmt_loadEvents_performed)

text \<open>
  The witness of C6: with the category Sports chosen, the search for \<open>pi\<close> between two
  blanks shows the user's two Sports events, \<open>Picnic\<close> is neither searched for nor shown.
\<close>

theorem searchEvents_short_term_is_load_witness:
  "length (trim (toLowerCase_sample (m_searchTerm mgmtPi))) \<le> 2
   \<and> m_events (fst (perform True [] (searchEvents toLowerCase_sample (Some ''u1'') mgmtPi)
         storeM)) = [eventM3, eventM2]
   \<and> m_error (fst (perform True [] (searchEvents toLowerCase_sample (Some ''u1'') mgmtPi)
         storeM)) = None"
proof -
  have t: "m_searchTerm mgmtPi = js '' pi ''" and c: "m_filterCategory mgmtPi = ''Sports''"
    and e: "m_error mgmtPi = None"
    by (simp_all add: mgmtPi_def mgmtM_def)
  have l: "length (trim (toLowerCase_sample (m_searchTerm mgmtPi))) \<le> 2"
    by (simp only: t sample_terms) (simp add: js_def)
  note th = searchEvents_short_term_is_load
    [where toLowerCase = toLowerCase_sample and s = mgmtPi and session = "Some ''u1''"
       and fresh = "[]" and uid = "''u1''" and docs = storeM, OF l]
  have a: "m_events (fst (perform True [] (searchEvents toLowerCase_sample (Some ''u1'') mgmtPi)
         storeM)) = [eventM3, eventM2]"
    using th [THEN conjunct2, THEN conjunct1] by (simp only: c ownerCatalog_storeM)
  have b: "m_error (fst (perform True [] (searchEvents toLowerCase_sample (Some ''u1'') mgmtPi)
         storeM)) = None"
    using th [THEN conjunct2, THEN conjunct2, THEN conjunct1] by (simp only: e)
  from l a b show ?thesis by simp
qed

text \<open>
  Claim C6 as the specification states it fails for a term that \<open>toLowerCase\<close> lengthens.
  The term of the two code units U+0130 and \<open>a\<close> has trimmed length 2; in lower case it
  has three code units (U+0069, U+0307, \<open>a\<close>), so the code searches for it. No name
  contains it and the events collection becomes empty, while the unfiltered query
  result holds the user's three events.
\<close>

theorem searchEvents_lengthened_term_counterexample:
  "length (trim (m_searchTerm mgmtIa)) \<le> 2
   \<and> m_events (fst (perform True [] (searchEvents toLowerCase_sample (Some ''u1'') mgmtIa)
         storeM)) = []
   \<and> ownerCatalog ''u1'' (m_filterCategory mgmtIa) storeM = [eventM3, eventM2, eventM1]"
proof -
  have t: "m_searchTerm mgmtIa = [304, 97]" and c: "m_filterCategory mgmtIa = []"
    by (simp_all add: mgmtIa_def mgmtM_def)
  have l: "length (trim (m_searchTerm mgmtIa)) \<le> 2"
    by (simp add: t sample_terms)
  have l': "2 < length (trim (toLowerCase_sample (m_searchTerm mgmtIa)))"
    by (simp add: t sample_terms)
  have n: "name eventM3 = Some (js ''Epic cup'')" "name eventM2 = Some (js ''Cup match'')"
    "name eventM1 = Some (js ''Picnic'')"
    by (simp_all add: eventM3_def eventM2_def eventM1_def)
  have f: "filter (lowerNameContains toLowerCase_sample [105, 775, 97])
      [eventM3, eventM2, eventM1] = []"
    by (simp add: lowerNameContains_def n js_def toLowerCase_sample_def
        toLowerCase_sample_unit_def sublist_code)
  have r: "filter (lowerNameContains toLowerCase_sample
        (trim (toLowerCase_sample (m_searchTerm mgmtIa))))
      (ownerCatalog ''u1'' (m_filterCategory mgmtIa) storeM) = []"
    by (simp only: t c sample_terms ownerCatalog_storeM f)
  have a: "m_events (fst (perform True [] (searchEvents toLowerCase_sample (Some ''u1'') mgmtIa)
         storeM)) = []"
    using l' by (simp add: searchEvents_performed r)
  have o: "ownerCatalog ''u1'' (m_filterCategory mgmtIa) storeM = [eventM3, eventM2, eventM1]"
    by (simp only: c ownerCatalog_storeM)
  from l a o show ?thesis
    by simp
qed

section \<open>Private events and the public page\<close>

text \<open>
  Claim C7. The events collection of the public page never contains an event with
  \<open>isPrivate = true\<close>: after every run of loads, category changes, favorite toggles and
  changes of the store by others, with the network up or down at each request, every
  event of the collection has \<open>isPrivate = false\<close>. Every load queries with
  \<open>isPrivate == false\<close>, for any selected category. With the catalog of \<open>A\<close> (Music, public)
  and \<open>B\<close> (Sports, private), browsing with category \<open>All\<close> yields \<open>A\<close> only, and so does
  browsing with category \<open>Music\<close>.
\<close>

theorem public_page_holds_no_private_event:
  "list_all (\<lambda>e. isPrivate e = Some False) (h_events (fst (home_run session acts)))
   \<and> filter (\<lambda>e. isPrivate e = Some True) (h_events (fst (home_run session acts))) = []
   \<and> Where ''isPrivate'' ''=='' (VBool False) \<in> set (home_query selectedCategory)
   \<and> h_events (fst (perform True [] (home_loadEvents session home_init) [eventA, eventB]))
       = [eventA]
   \<and> h_events (fst (perform True []
         (home_loadEvents session (home_init\<lparr>h_selectedCategory := ''Music''\<rparr>)) [eventA, eventB]))
       = [eventA]"
proof -
  have p: "list_all (\<lambda>e. isPrivate e = Some False) (h_events (fst (home_run session acts)))"
    by (rule home_run_public)
  then have f: "filter (\<lambda>e. isPrivate e = Some True) (h_events (fst (home_run session acts))) = []"
    by (auto simp: list_all_iff filter_empty_conv)
  have q: "Where ''isPrivate'' ''=='' (VBool False) \<in> set (home_query selectedCategory)"
    by (simp add: home_query_def query_def eventsRef_def Let_def)
  have a: "h_events (fst (perform True [] (home_loadEvents session home_init) [eventA, eventB]))
       = [eventA]"
    by (simp add: home_loadEvents_performed runQuery_home home_init_def eventA_def eventB_def)
  have m: "h_events (fst (perform True []
         (home_loadEvents session (home_init\<lparr>h_selectedCategory := ''Music''\<rparr>)) [eventA, eventB]))
       = [eventA]"
    by (simp add: home_loadEvents_performed runQuery_home home_init_def eventA_def eventB_def)
  from p f q a m show ?thesis by simp
qed

section \<open>A catalog load that fails\<close>

text \<open>
  Claim C8, as the code has it. For every catalog load that fails with a remote error,
  the events collection held before is left untouched, in both views. The management
  page surfaces the load-error notice. The public page only writes the failure to the
  console and clears the loading flag; it has no notice to show.
\<close>

theorem loadEvents_failure_keeps_events:
  "m_events (complete (Failed msg) (mgmt_loadEvents (Some uid) s)) = m_events s
   \<and> m_error (complete (Failed msg) (mgmt_loadEvents (Some uid) s)) = Some LoadError
   \<and> h_events (complete (Failed msg) (home_loadEvents session h)) = h_events h
   \<and> complete (Failed msg) (home_loadEvents session h)
       = h\<lparr>h_loading := False, h_console := h_console h @ [LogLoadFailed msg]\<rparr>"
  by (simp add: mgmt_loadEvents_def mgmt_loadFailed_def home_loadEvents_def
      home_loadFailed_def)

text \<open>
  Claim C8 as the specification states it fails on the public page: after a failed
  load, everything the markup of the page reads is what it was before the load, so no
  notice has been surfaced to the user.
\<close>

theorem home_loadEvents_failure_counterexample:
  "home_view (complete (Failed ''unavailable'') (home_loadEvents (Some ''u1'') homeAC))
     = home_view homeAC"
  by (simp add: home_loadEvents_def home_loadFailed_def home_view_def homeAC_def)

section \<open>The datetime field of the form binder\<close>

text \<open>
  Claim C9. For every selected event with a \<open>datetime\<close>, the form binder assigns to the
  datetime field the wall-clock string of the local time of the point in time that the
  value denotes: the time value of a \<open>Date\<close>, or what \<open>toDate\<close> makes of a \<open>Timestamp\<close>,
  less the browser's offset; where \<open>toISOString\<close> has no string for that time, the field
  is left as it was. The value arrives at the field through the representation's
  point in time only, so a \<open>Timestamp\<close> and the \<open>Date\<close> it converts to denote the same
  point in time and leave the same form.
\<close>

theorem binder_writes_local_wall_clock:
  "fm_datetime (m_form (bindForm ctl tz toDate
       (s\<lparr>m_selectedEvent := Some (Selected (ev\<lparr>datetime := Some dt\<rparr>))\<rparr>)))
     = (if validTime (localTime tz (instant toDate dt))
        then datetimeLocalValue ctl (wallClock (localTime tz (instant toDate dt)))
        else fm_datetime (m_form s))
   \<and> instant toDate (Timestamp seconds nanoseconds)
     = instant toDate (DateObj (toDate seconds nanoseconds))
   \<and> m_form (bindForm ctl tz toDate (s\<lparr>m_selectedEvent :=
          Some (Selected (ev\<lparr>datetime := Some (Timestamp seconds nanoseconds)\<rparr>))\<rparr>))
     = m_form (bindForm ctl tz toDate (s\<lparr>m_selectedEvent :=
          Some (Selected (ev\<lparr>datetime := Some (DateObj (toDate seconds nanoseconds))\<rparr>))\<rparr>))"
proof -
  have a: "fm_datetime (m_form (bindForm ctl tz toDate
       (s\<lparr>m_selectedEvent := Some (Selected (ev\<lparr>datetime := Some dt\<rparr>))\<rparr>)))
     = (if validTime (localTime tz (instant toDate dt))
        then datetimeLocalValue ctl (wallClock (localTime tz (instant toDate dt)))
        else fm_datetime (m_form s))"
    by (simp add: bindForm_def populate_def Let_def datetimeFieldValue_wallClock)
  have b: "instant toDate (Timestamp seconds nanoseconds)
     = instant toDate (DateObj (toDate seconds nanoseconds))"
    by (simp add: instant_def)
  have c: "m_form (bindForm ctl tz toDate (s\<lparr>m_selectedEvent :=
          Some (Selected (ev\<lparr>datetime := Some (Timestamp seconds nanoseconds)\<rparr>))\<rparr>))
     = m_form (bindForm ctl tz toDate (s\<lparr>m_selectedEvent :=
          Some (Selected (ev\<lparr>datetime := Some (DateObj (toDate seconds nanoseconds))\<rparr>))\<rparr>))"
    by (simp add: bindForm_def populate_def Let_def datetimeFieldValue_wallClock b)
  from a b c show ?thesis by simp
qed

text \<open>
  The witness of C9, the scenario of the specification: the event at 2025-03-01 09:00
  UTC shows as \<open>2025-03-01T10:00\<close> in a browser one hour ahead of UTC, and so does the
  event at 15:00 UTC in a browser five hours behind; the same event with a \<open>Timestamp\<close>
  leaves the form that the \<open>Date\<close> of its conversion leaves. This holds whatever the
  controls and the conversion of the library do.
\<close>

theorem binder_writes_local_wall_clock_witness:
  "\<forall>ctl toDate.
     fm_datetime (m_form (bindForm ctl (\<lambda>t. - 60) toDate mgmtSelDate))
       = datetimeLocalValue ctl ''2025-03-01T10:00''
     \<and> fm_datetime (m_form (bindForm ctl (\<lambda>t. 300) toDate mgmtSelWest))
       = datetimeLocalValue ctl ''2025-03-01T10:00''
     \<and> m_form (bindForm ctl (\<lambda>t. - 60) toDate mgmtSelStamp)
       = m_form (bindForm ctl (\<lambda>t. - 60) toDate
           (mgmtM\<lparr>m_selectedEvent :=
              Some (Selected (eventM1\<lparr>datetime := Some (DateObj (toDate 1740819600 0))\<rparr>))\<rparr>))"
proof (intro allI)
  fix ctl :: controls and toDate :: "int \<Rightarrow> nat \<Rightarrow> int"
  have w: "wallClock 1740823200000 = ''2025-03-01T10:00''"
    by code_simp
  have v: "validTime 1740823200000"
    by (simp add: validTime_def)
  have e: "localTime (\<lambda>t. - 60) (instant toDate (DateObj 1740819600000)) = 1740823200000"
    by (simp add: localTime_def instant_def)
  have e': "localTime (\<lambda>t. 300) (instant toDate (DateObj 1740841200000)) = 1740823200000"
    by (simp add: localTime_def instant_def)
  have a: "fm_datetime (m_form (bindForm ctl (\<lambda>t. - 60) toDate mgmtSelDate))
       = datetimeLocalValue ctl ''2025-03-01T10:00''"
    unfolding mgmtSelDate_def
    using binder_writes_local_wall_clock
      [where ctl = ctl and tz = "\<lambda>t. - 60" and toDate = toDate and s = mgmtM
         and ev = eventM1 and dt = "DateObj 1740819600000", THEN conjunct1]
    by (simp only: e v w if_True)
  have b: "fm_datetime (m_form (bindForm ctl (\<lambda>t. 300) toDate mgmtSelWest))
       = datetimeLocalValue ctl ''2025-03-01T10:00''"
    unfolding mgmtSelWest_def
    using binder_writes_local_wall_clock
      [where ctl = ctl and tz = "\<lambda>t. 300" and toDate = toDate and s = mgmtM
         and ev = eventM1 and dt = "DateObj 1740841200000", THEN conjunct1]
    by (simp only: e' v w if_True)
  have c: "m_form (bindForm ctl (\<lambda>t. - 60) toDate mgmtSelStamp)
       = m_form (bindForm ctl (\<lambda>t. - 60) toDate
           (mgmtM\<lparr>m_selectedEvent :=
              Some (Selected (eventM1\<lparr>datetime := Some (DateObj (toDate 1740819600 0))\<rparr>))\<rparr>))"
    unfolding mgmtSelStamp_def
    using binder_writes_local_wall_clock
      [where ctl = ctl and tz = "\<lambda>t. - 60" and toDate = toDate and s = mgmtM
         and ev = eventM1 and seconds = 1740819600 and nanoseconds = 0,
       THEN conjunct2, THEN conjunct2]
    by simp
  from a b c show "fm_datetime (m_form (bindForm ctl (\<lambda>t. - 60) toDate mgmtSelDate))
       = datetimeLocalValue ctl ''2025-03-01T10:00''
     \<and> fm_datetime (m_form (bindForm ctl (\<lambda>t. 300) toDate mgmtSelWest))
       = datetimeLocalValue ctl ''2025-03-01T10:00''
     \<and> m_form (bindForm ctl (\<lambda>t. - 60) toDate mgmtSelStamp)
       = m_form (bindForm ctl (\<lambda>t. - 60) toDate
           (mgmtM\<lparr>m_selectedEvent :=
              Some (Selected (eventM1\<lparr>datetime := Some (DateObj (toDate 1740819600 0))\<rparr>))\<rparr>))"
    by simp
qed

section \<open>Creating an event\<close>

text \<open>
  Claim C10, as the code has it. After every successful create, the new event, with the
  id the store has assigned and all submitted fields, is appended at the end of the
  local mirror, not inserted in sort position. The mirror is then ordered by \<open>created\<close>
  descending exactly when it was so before and none of its entries is older than the
  new event; hence a mirror that was ordered and holds an entry older than the new
  event is no longer ordered.
\<close>

theorem create_appends_at_end:
  assumes "m_selectedEvent s = None"
  shows "m_events (complete (DocRef i) (handleSubmit (Some uid) now dt s))
           = m_events s @ [newEvent i (buildEventData uid now dt (m_form s))]
         \<and> createdDesc (m_events (complete (DocRef i) (handleSubmit (Some uid) now dt s)))
           = (createdDesc (m_events s)
              \<and> list_all (\<lambda>e. case created e of None \<Rightarrow> False
                                | Some t \<Rightarrow> now * 1000000 \<le> time_key t) (m_events s))"
proof -
  have "notOlder x (newEvent i (buildEventData uid now dt (m_form s)))
        = (case created x of None \<Rightarrow> False | Some t \<Rightarrow> now * 1000000 \<le> time_key t)" for x
    by (simp add: notOlder_def created_newEvent buildEventData_def split: option.splits)
  then show ?thesis
    by (simp add: handleSubmit_create_completed [OF assms] createdDesc_snoc)
qed

text \<open>
  The witness of C10: user \<open>u1\<close>, whose mirror holds \<open>M2\<close> and \<open>M1\<close> in descending order,
  creates an event at second 5000. It is appended after \<open>M1\<close>, and the mirror is no
  longer ordered.
\<close>

theorem create_appends_at_end_witness:
  "m_selectedEvent mgmtM = None
   \<and> m_events (complete (DocRef ''N1'') (handleSubmit (Some ''u1'') 5000000 1740819600000 mgmtM))
       = [eventM2, eventM1,
          newEvent ''N1'' (buildEventData ''u1'' 5000000 1740819600000 (m_form mgmtM))]
   \<and> createdDesc (m_events mgmtM)
   \<and> \<not> createdDesc (m_events (complete (DocRef ''N1'')
          (handleSubmit (Some ''u1'') 5000000 1740819600000 mgmtM)))"
proof -
  have n: "m_selectedEvent mgmtM = None"
    by (simp add: mgmtM_def)
  have e: "m_events mgmtM = [eventM2, eventM1]"
    by (simp add: mgmtM_def)
  have d: "createdDesc [eventM2, eventM1]"
    by (simp add: createdDesc_def notOlder_def eventM1_def eventM2_def)
  have c: "created eventM1 = Some (Timestamp 1000 0)" "created eventM2 = Some (Timestamp 2000 0)"
    by (simp_all add: eventM1_def eventM2_def)
  note t = create_appends_at_end [OF n, of "''N1''" "''u1''" 5000000 1740819600000]
  have a: "m_events (complete (DocRef ''N1'') (handleSubmit (Some ''u1'') 5000000 1740819600000 mgmtM))
       = [eventM2, eventM1,
          newEvent ''N1'' (buildEventData ''u1'' 5000000 1740819600000 (m_form mgmtM))]"
    using t [THEN conjunct1] by (simp add: e)
  have b: "\<not> createdDesc (m_events (complete (DocRef ''N1'')
          (handleSubmit (Some ''u1'') 5000000 1740819600000 mgmtM)))"
    unfolding t [THEN conjunct2] by (simp add: e c)
  from n a b d e show ?thesis
    by simp
qed

text \<open>
  Claim C10 as the specification states it fails on an empty mirror, the state of a user
  who creates a first event: the mirror is ordered before the create and, holding the
  new event alone, it is ordered after it.
\<close>

theorem create_on_empty_mirror_counterexample:
  "createdDesc (m_events mgmtEmpty)
   \<and> createdDesc (m_events (complete (DocRef ''N1'')
        (handleSubmit (Some ''u1'') 5000000 1740819600000 mgmtEmpty)))
   \<and> map id' (m_events (complete (DocRef ''N1'')
        (handleSubmit (Some ''u1'') 5000000 1740819600000 mgmtEmpty))) = [''N1'']"
proof -
  have n: "m_selectedEvent mgmtEmpty = None"
    by (simp add: mgmtEmpty_def mgmtM_def)
  have e: "m_events mgmtEmpty = []"
    by (simp add: mgmtEmpty_def)
  show ?thesis
    by (simp add: handleSubmit_create_completed [OF n] e createdDesc_def newEvent_def)
qed

end
